theory Spec2Isabelle
  imports Complex_Main
begin

section \<open>The Earth visualisation page: presentation state machine and ambient schedulers\<close>

text \<open>
  A shallow embedding of \<^verbatim>\<open>src/script.js\<close> (class \<^verbatim>\<open>EarthVisualization\<close>).
  The page is single threaded: every handler of the source runs to completion, so each
  handler is a function from the page state to the page state, and the browser is a
  function \<open>step\<close> that delivers one event to it.

  \<^item> The fields of the object and the parts of the browser it reads and writes (the
    document, the window size, the clock, the timer queue) are one record.
  \<^item> \<^verbatim>\<open>setTimeout\<close>, \<^verbatim>\<open>setInterval\<close> and the completion of a \<^verbatim>\<open>gsap.to\<close> tween are
    tasks in a queue, each with the time it is due and the closure it runs, named by a
    constructor of \<open>callback\<close>. The event \<open>Next\<close> runs the task that is due first.
  \<^item> \<^verbatim>\<open>Date.now()\<close> is the field \<open>now\<close> (milliseconds, an integer);
    \<^verbatim>\<open>Math.random()\<close> reads the next value of the stream \<open>rng\<close>.
  \<^item> The promise of \<^verbatim>\<open>selectedVoice.play()\<close> is a pending entry that the browser
    settles later with the event \<open>PlayResolved\<close> or \<open>PlayRejected\<close>.
  \<^item> Calls into the media elements and into the tween library are recorded in the logs
    \<open>media\<close> and \<open>tweens\<close>. The argument of type \<open>origin\<close> of \<open>playRandomVoice\<close>
    only labels the log entry with the caller.
  \<^item> JavaScript numbers are modelled as real numbers, times as integers.

  Not modelled: the background music element, the construction of the scene (lights,
  textures, shaders, the positions of the stars), the per-frame rotation of the render
  loop, the values a tween writes before it completes, and \<^verbatim>\<open>console.log\<close>.
\<close>

subsection \<open>Document elements\<close>

type_synonym vec3 = "real \<times> real \<times> real"

record element =
  classes :: "string list"
  display :: string
  width :: "real option"
  volume :: real

definition classList_add :: "string \<Rightarrow> element \<Rightarrow> element" where
  "classList_add c e = (if c \<in> set (classes e) then e else e\<lparr>classes := classes e @ [c]\<rparr>)"

definition classList_remove :: "string \<Rightarrow> element \<Rightarrow> element" where
  "classList_remove c e = e\<lparr>classes := removeAll c (classes e)\<rparr>"

text \<open>A spawned text label: a child of \<^verbatim>\<open>randomTextContainer\<close>, positions in pixels.\<close>

record label =
  l_id :: nat
  l_text :: string
  l_fade :: bool
  l_left :: real
  l_top :: real

subsection \<open>Timers, tweens, media calls\<close>

datatype tween_target = CameraPosition | ControlsTarget

datatype callback =
    HideLoading
  | SocialVisible
  | ZoomToPlanet
  | MenuVisible
  | ShowDialogTimeout string
  | DialogVisible string
  | HideDialogTimeout string
  | StopVoice nat
  | RemoveLabel nat
  | VoiceInterval
  | SpawnInterval
  | TweenComplete tween_target vec3 bool

datatype task = Task (due: int) (period: "int option") (callback: callback)

datatype origin = Scheduler | Manual

datatype media_call =
    ClickPlay int
  | VoicePlay origin nat int int
  | VoiceStarted nat int int
  | VoiceRejected nat int int
  | VoicePause int int

datatype error = TypeError

subsection \<open>The page state\<close>

record state =
  hasStarted :: bool
  currentDialog :: "string option"
  currentAnimation :: "string option"
  escapeHandler :: bool
  clickSound :: bool
  distortedVoices :: "string list"
  lastVoiceTime :: int
  camera_fov :: real
  camera_aspect :: real
  camera_position :: vec3
  camera_projection :: "real \<times> real"
  renderer_size :: "real \<times> real"
  controls_target :: vec3
  escapeOrphans :: nat
  menuHandlers :: nat
  now :: int
  innerWidth :: real
  innerHeight :: real
  doc :: "string \<rightharpoonup> element"
  menuItems :: "string list"
  labels :: "label list"
  nextLabel :: nat
  pending :: "task list"
  plays :: "(nat \<times> int) list"
  nextPlay :: nat
  media :: "media_call list"
  tweens :: "(int \<times> tween_target \<times> int \<times> vec3) list"
  rng :: "nat \<Rightarrow> real"
  rix :: nat

text \<open>
  \<open>escapeHandler\<close> says that \<^verbatim>\<open>this.escapeHandler\<close> is not null; \<open>escapeOrphans\<close>
  counts the key listeners that \<^verbatim>\<open>addEscapeListener\<close> registered and then lost the
  reference to (it overwrites the field without removing the old listener).
  \<open>menuHandlers\<close> counts the calls of \<^verbatim>\<open>setupMenuInteractions\<close>: each call registers
  one more click listener on every menu item, close button and dialog overlay.
  \<open>menuItems\<close> lists the values \<open>o\<close> for which an element \<^verbatim>\<open>[data-option="o"]\<close> exists.
  In \<open>doc\<close> the key \<^verbatim>\<open>.loading-progress\<close> stands for the element found by
  \<^verbatim>\<open>querySelector('.loading-progress')\<close>; every other key is an element id.
\<close>

subsection \<open>Browser primitives\<close>

definition update_element :: "string \<Rightarrow> (element \<Rightarrow> element) \<Rightarrow> state \<Rightarrow> state" where
  "update_element i f s = (case doc s i of None \<Rightarrow> s | Some e \<Rightarrow> s\<lparr>doc := (doc s)(i \<mapsto> f e)\<rparr>)"

definition setTimeout :: "callback \<Rightarrow> int \<Rightarrow> state \<Rightarrow> state" where
  "setTimeout cb ms s = s\<lparr>pending := pending s @ [Task (now s + ms) None cb]\<rparr>"

definition setInterval :: "callback \<Rightarrow> int \<Rightarrow> state \<Rightarrow> state" where
  "setInterval cb ms s = s\<lparr>pending := pending s @ [Task (now s + ms) (Some ms) cb]\<rparr>"

text \<open>
  \<^verbatim>\<open>gsap.to(target, {duration, x, y, z, onComplete})\<close>: the call is logged, and the
  tween completes \<open>ms\<close> milliseconds later, when it has written the destination into its
  target and runs \<^verbatim>\<open>onComplete\<close> (the flag says that there is one).
\<close>

definition gsap_to :: "tween_target \<Rightarrow> int \<Rightarrow> vec3 \<Rightarrow> bool \<Rightarrow> state \<Rightarrow> state" where
  "gsap_to tgt ms dest oc s =
     s\<lparr>tweens := tweens s @ [(now s, tgt, ms, dest)],
       pending := pending s @ [Task (now s + ms) None (TweenComplete tgt dest oc)]\<rparr>"

definition Math_random :: "state \<Rightarrow> real \<times> state" where
  "Math_random s = (rng s (rix s), s\<lparr>rix := Suc (rix s)\<rparr>)"

definition lower_char :: "char \<Rightarrow> char" where
  "lower_char c =
     (case map_of (zip ''ABCDEFGHIJKLMNOPQRSTUVWXYZ'' ''abcdefghijklmnopqrstuvwxyz'') c of
        None \<Rightarrow> c
      | Some l \<Rightarrow> l)"

definition toLowerCase :: "string \<Rightarrow> string" where
  "toLowerCase = map lower_char"

text \<open>\<^verbatim>\<open>str.replace(pat, rep)\<close> with a string pattern: the first occurrence only.\<close>

fun replace_first :: "string \<Rightarrow> string \<Rightarrow> string \<Rightarrow> string" where
  "replace_first pat rep [] = (if pat = [] then rep else [])"
| "replace_first pat rep (c # cs) =
     (if take (length pat) (c # cs) = pat then rep @ drop (length pat) (c # cs)
      else c # replace_first pat rep cs)"

text \<open>\<^verbatim>\<open>xs[i]\<close>: \<^verbatim>\<open>undefined\<close> outside the array.\<close>

definition array_get :: "'a list \<Rightarrow> int \<Rightarrow> 'a option" where
  "array_get xs i = (if 0 \<le> i \<and> i < int (length xs) then Some (xs ! nat i) else None)"

subsection \<open>Audio\<close>

definition playClickSound :: "state \<Rightarrow> state" where
  "playClickSound s = (if clickSound s then s\<lparr>media := media s @ [ClickPlay (now s)]\<rparr> else s)"

definition startRandomVoiceSystem :: "state \<Rightarrow> state" where
  "startRandomVoiceSystem s = setInterval VoiceInterval 25000 s"

definition setupAudio :: "state \<Rightarrow> state" where
  "setupAudio s =
     (let s1 = (case doc s ''clickSound'' of
                  None \<Rightarrow> s
                | Some e \<Rightarrow> (update_element ''clickSound'' (\<lambda>e. e\<lparr>volume := 0.6\<rparr>) s)\<lparr>clickSound := True\<rparr>)
      in case (doc s1 ''distortedVoice1'', doc s1 ''distortedVoice2'') of
           (Some v1, Some v2) \<Rightarrow>
             startRandomVoiceSystem
               ((update_element ''distortedVoice2'' (\<lambda>e. e\<lparr>volume := 0.4\<rparr>)
                  (update_element ''distortedVoice1'' (\<lambda>e. e\<lparr>volume := 0.4\<rparr>) s1))
                \<lparr>distortedVoices := [''distortedVoice1'', ''distortedVoice2'']\<rparr>)
         | _ \<Rightarrow> s1)"

definition playRandomVoice :: "origin \<Rightarrow> state \<Rightarrow> state" where
  "playRandomVoice og s =
     (if length (distortedVoices s) = 0 then s
      else
        let (r, s1) = Math_random s;
            randomIndex = \<lfloor>r * real (length (distortedVoices s1))\<rfloor>
        in case array_get (distortedVoices s1) randomIndex of
             None \<Rightarrow> s1
           | Some selectedVoice \<Rightarrow>
               s1\<lparr>media := media s1 @ [VoicePlay og (nextPlay s1) randomIndex (now s1)],
                  plays := plays s1 @ [(nextPlay s1, randomIndex)],
                  nextPlay := Suc (nextPlay s1)\<rparr>)"

definition maybePlayRandomVoice :: "state \<Rightarrow> state" where
  "maybePlayRandomVoice s =
     (let timeSinceLastVoice = now s - lastVoiceTime s;
          (randomChance, s1) = Math_random s
      in if timeSinceLastVoice > 60000 \<and> randomChance < 0.15
         then playRandomVoice Scheduler s1 else s1)"

text \<open>The two callbacks of the promise of \<^verbatim>\<open>selectedVoice.play()\<close>.\<close>

definition play_then :: "nat \<Rightarrow> state \<Rightarrow> state" where
  "play_then p s =
     (case map_of (plays s) p of
        None \<Rightarrow> s
      | Some randomIndex \<Rightarrow>
          setTimeout (StopVoice (nat randomIndex)) 5000
            (s\<lparr>plays := filter (\<lambda>q. fst q \<noteq> p) (plays s),
               lastVoiceTime := now s,
               media := media s @ [VoiceStarted p randomIndex (now s)]\<rparr>))"

definition play_catch :: "nat \<Rightarrow> state \<Rightarrow> state" where
  "play_catch p s =
     (case map_of (plays s) p of
        None \<Rightarrow> s
      | Some randomIndex \<Rightarrow>
          s\<lparr>plays := filter (\<lambda>q. fst q \<noteq> p) (plays s),
            media := media s @ [VoiceRejected p randomIndex (now s)]\<rparr>)"

subsection \<open>Camera moves\<close>

definition zoomToPlanet :: "state \<Rightarrow> state" where
  "zoomToPlanet s =
     (let aspect = innerWidth s / innerHeight s;
          fov = camera_fov s * pi / 180;
          distance = 160;
          rightLookOffset = tan (fov / 2) * distance * aspect
      in gsap_to ControlsTarget 3000 (rightLookOffset, 0, 0) True
           (gsap_to CameraPosition 3000 (0, 0, distance) False s))"

definition moveEarthTo :: "string \<Rightarrow> state \<Rightarrow> state" where
  "moveEarthTo direction s =
     (let aspect = innerWidth s / innerHeight s;
          fov = camera_fov s * pi / 180;
          distance = 160;
          (targetX, targetY) =
            (if direction = ''right'' then
               (- tan (fov / 2) * distance * aspect * 0.8, 0)
             else if direction = ''top'' then
               (tan (fov / 2) * distance * aspect * 0.6, tan (fov / 2) * distance * 0.8)
             else if direction = ''bottom'' then
               (tan (fov / 2) * distance * aspect * 0.6, - tan (fov / 2) * distance * 0.8)
             else if direction = ''bottomRight'' then
               (- tan (fov / 2) * distance * aspect * 0.6, - tan (fov / 2) * distance * 0.6)
             else (0, 0))
      in gsap_to ControlsTarget 2500 (targetX, targetY, 0) False s)"

definition moveEarthToLeft :: "state \<Rightarrow> state" where
  "moveEarthToLeft s =
     (let aspect = innerWidth s / innerHeight s;
          fov = camera_fov s * pi / 180;
          distance = 160;
          rightLookOffset = tan (fov / 2) * distance * aspect
      in gsap_to ControlsTarget 2500 (rightLookOffset, 0, 0) False s)"

definition onWindowResize :: "state \<Rightarrow> state" where
  "onWindowResize s =
     (let s1 = s\<lparr>camera_aspect := innerWidth s / innerHeight s\<rparr>;
          s2 = s1\<lparr>camera_projection := (camera_fov s1, camera_aspect s1)\<rparr>
      in s2\<lparr>renderer_size := (innerWidth s2, innerHeight s2)\<rparr>)"

subsection \<open>Start, menu and dialogs\<close>

definition startGame :: "state \<Rightarrow> state" where
  "startGame s =
     (let s1 = playClickSound s;
          s2 = s1\<lparr>hasStarted := True\<rparr>;
          s3 = update_element ''startText'' (classList_add ''hidden'') s2;
          s4 = update_element ''titleContainer'' (classList_add ''hidden'') s3;
          s5 = update_element ''socialMedia'' (\<lambda>e. e\<lparr>display := ''none''\<rparr>) s4
      in setTimeout ZoomToPlanet 300 s5)"

definition showGameMenu :: "state \<Rightarrow> state" where
  "showGameMenu s =
     (case doc s ''gameMenu'' of
        None \<Rightarrow> s
      | Some e \<Rightarrow> setTimeout MenuVisible 100 (update_element ''gameMenu'' (classList_remove ''hidden'') s))"

definition techWords :: "string list" where
  "techWords =
     [''INITIALIZE'', ''PROTOCOL'', ''MATRIX'', ''VECTOR'', ''QUANTUM'',
      ''NEURAL'', ''SYSTEM'', ''BINARY'', ''CODE'', ''DATA'',
      ''CYBER'', ''DIGITAL'', ''STREAM'', ''FLUX'', ''NEXUS'',
      ''ORBIT'', ''PLASMA'', ''LASER'', ''SIGNAL'', ''CORE'',
      ''ALPHA'', ''BETA'', ''GAMMA'', ''DELTA'', ''OMEGA'',
      ''ERROR'', ''LOADING'', ''PROCESS'', ''EXECUTE'', ''RUN'']"

definition startRandomTextSpawning :: "state \<Rightarrow> state" where
  "startRandomTextSpawning s =
     (case doc s ''randomTextContainer'' of
        None \<Rightarrow> s
      | Some container \<Rightarrow> setInterval SpawnInterval 800 s)"

text \<open>
  \<^verbatim>\<open>spawnText\<close>: four draws, in the order of the source (fade flag, word, left, top).
  A word index outside the array cannot occur for a draw in \<open>[0, 1)\<close>; the model gives
  the empty text there.
\<close>

definition spawnText :: "state \<Rightarrow> state" where
  "spawnText s =
     (case doc s ''randomTextContainer'' of
        None \<Rightarrow> s
      | Some container \<Rightarrow>
          let (r1, s1) = Math_random s;
              (r2, s2) = Math_random s1;
              randomWord = (case array_get techWords \<lfloor>r2 * real (length techWords)\<rfloor> of
                              None \<Rightarrow> [] | Some w \<Rightarrow> w);
              (r3, s3) = Math_random s2;
              (r4, s4) = Math_random s3;
              textElement = \<lparr>l_id = nextLabel s4, l_text = randomWord, l_fade = (r1 > 0.7),
                             l_left = r3 * 300, l_top = r4 * 500 + 200\<rparr>
          in setTimeout (RemoveLabel (l_id textElement)) 4000
               (s4\<lparr>labels := labels s4 @ [textElement], nextLabel := Suc (nextLabel s4)\<rparr>))"

definition spawnTick :: "state \<Rightarrow> state" where
  "spawnTick s = (let (r, s1) = Math_random s in if r > 0.4 then spawnText s1 else s1)"

definition setupMenuInteractions :: "state \<Rightarrow> state" where
  "setupMenuInteractions s = s\<lparr>menuHandlers := Suc (menuHandlers s)\<rparr>"

definition menuOptions :: "(string \<times> string \<times> string) list" where
  "menuOptions =
     [(''2'', ''aboutDialog'', ''right''),
      (''3'', ''problemDialog'', ''top''),
      (''4'', ''contactDialog'', ''bottom''),
      (''5'', ''sponsorsDialog'', ''bottomRight'')]"

definition dialogs :: "string list" where
  "dialogs = [''aboutDialog'', ''problemDialog'', ''contactDialog'', ''sponsorsDialog'']"

definition addEscapeListener :: "state \<Rightarrow> state" where
  "addEscapeListener s =
     s\<lparr>escapeOrphans := escapeOrphans s + (if escapeHandler s then 1 else 0),
       escapeHandler := True\<rparr>"

definition removeEscapeListener :: "state \<Rightarrow> state" where
  "removeEscapeListener s = (if escapeHandler s then s\<lparr>escapeHandler := False\<rparr> else s)"

definition showDialog :: "string \<Rightarrow> string \<Rightarrow> state \<Rightarrow> state" where
  "showDialog dialogId animationType s =
     (let s1 = update_element ''gameMenu'' (\<lambda>e. e\<lparr>display := ''none''\<rparr>) s;
          s2 = s1\<lparr>currentDialog := Some dialogId, currentAnimation := Some animationType\<rparr>;
          s3 = moveEarthTo animationType s2;
          s4 = setTimeout (ShowDialogTimeout dialogId) 500 s3
      in addEscapeListener s4)"

definition hideDialog :: "string \<Rightarrow> state \<Rightarrow> state" where
  "hideDialog dialogType s =
     (let dialogId = dialogType @ ''Dialog'';
          s1 = (case doc s dialogId of
                  None \<Rightarrow> s
                | Some dialog \<Rightarrow>
                    setTimeout (HideDialogTimeout dialogId) 500
                      (update_element dialogId (classList_remove ''visible'') s))
      in removeEscapeListener s1)"

definition escapeKey :: "string \<Rightarrow> state \<Rightarrow> state" where
  "escapeKey key s =
     (if toLowerCase key = ''e'' then
        (let s1 = playClickSound s
         in case currentDialog s1 of
              None \<Rightarrow> s1
            | Some d \<Rightarrow> hideDialog (replace_first ''Dialog'' [] d) s1)
      else s)"

subsection \<open>Timer callbacks\<close>

fun fire :: "callback \<Rightarrow> state \<Rightarrow> state" where
  "fire HideLoading s = update_element ''loading'' (classList_add ''hidden'') s"
| "fire SocialVisible s = update_element ''socialMedia'' (classList_add ''visible'') s"
| "fire ZoomToPlanet s = zoomToPlanet s"
| "fire MenuVisible s =
     setupMenuInteractions
       (startRandomTextSpawning (update_element ''gameMenu'' (classList_add ''visible'') s))"
| "fire (ShowDialogTimeout dialogId) s =
     (case doc s dialogId of
        None \<Rightarrow> s
      | Some dialog \<Rightarrow>
          setTimeout (DialogVisible dialogId) 50
            (update_element dialogId (classList_remove ''hidden'') s))"
| "fire (DialogVisible dialogId) s = update_element dialogId (classList_add ''visible'') s"
| "fire (HideDialogTimeout dialogId) s =
     moveEarthToLeft
       (update_element ''gameMenu'' (\<lambda>e. e\<lparr>display := []\<rparr>)
         (update_element dialogId (classList_add ''hidden'') s))"
| "fire (StopVoice i) s = s\<lparr>media := media s @ [VoicePause (int i) (now s)]\<rparr>"
| "fire (RemoveLabel i) s = s\<lparr>labels := filter (\<lambda>l. l_id l \<noteq> i) (labels s)\<rparr>"
| "fire VoiceInterval s = maybePlayRandomVoice s"
| "fire SpawnInterval s = spawnTick s"
| "fire (TweenComplete CameraPosition dest oc) s =
     (let s1 = s\<lparr>camera_position := dest\<rparr> in if oc then showGameMenu s1 else s1)"
| "fire (TweenComplete ControlsTarget dest oc) s =
     (let s1 = s\<lparr>controls_target := dest\<rparr> in if oc then showGameMenu s1 else s1)"

text \<open>
  The task that is due first; among tasks due at the same time, the one registered
  first. The result is the task and the queue without it.
\<close>

fun next_task :: "task list \<Rightarrow> (task \<times> task list) option" where
  "next_task [] = None"
| "next_task (t # ts) =
     (case next_task ts of
        None \<Rightarrow> Some (t, [])
      | Some (u, rest) \<Rightarrow> if due t \<le> due u then Some (t, ts) else Some (u, t # rest))"

definition run_next :: "state \<Rightarrow> state" where
  "run_next s =
     (case next_task (pending s) of
        None \<Rightarrow> s
      | Some (t, rest) \<Rightarrow>
          fire (callback t)
            (s\<lparr>now := max (now s) (due t),
               pending := rest @ (case period t of
                                    None \<Rightarrow> []
                                  | Some p \<Rightarrow> [Task (due t + p) (Some p) (callback t)])\<rparr>))"

text \<open>Time passes without an event, never beyond the moment the next task is due.\<close>

definition idle :: "int \<Rightarrow> state \<Rightarrow> state" where
  "idle d s =
     (if d \<le> 0 then s
      else case next_task (pending s) of
             None \<Rightarrow> s\<lparr>now := now s + d\<rparr>
           | Some (t, rest) \<Rightarrow> s\<lparr>now := max (now s) (min (now s + d) (due t))\<rparr>)"

subsection \<open>Events\<close>

datatype event =
    Next
  | Idle int
  | KeyDown string string
  | ClickStart
  | ClickMenu string
  | ClickClose "string option"
  | ClickOverlay string bool
  | ClickSocial
  | Resize real real
  | PlayResolved nat
  | PlayRejected nat
  | LoadProgress nat nat
  | LoadComplete

text \<open>
  \<open>KeyDown key code\<close> runs the key listeners of the document in the order of their
  registration: the voice test key, the Enter key, then the escape listeners.
  \<open>ClickClose a\<close> is a click on a close button whose \<^verbatim>\<open>data-dialog\<close> attribute is
  \<open>a\<close>; \<open>ClickOverlay d exact\<close> is a click inside the dialog \<open>d\<close>, with \<open>exact\<close> when the
  target of the click is the overlay itself.
\<close>

definition keydown :: "string \<Rightarrow> string \<Rightarrow> state \<Rightarrow> state" where
  "keydown key code s =
     (let s1 = (if toLowerCase key = ''v'' then playRandomVoice Manual s else s);
          s2 = (if code = ''Enter'' \<and> \<not> hasStarted s1 then startGame s1 else s1);
          s3 = ((escapeKey key) ^^ (escapeOrphans s2)) s2
      in if escapeHandler s3 then escapeKey key s3 else s3)"

definition menuClick :: "string \<Rightarrow> state \<Rightarrow> state" where
  "menuClick option s =
     (case map_of menuOptions option of
        None \<Rightarrow> s
      | Some (dialog, animation) \<Rightarrow>
          if option \<in> set (menuItems s)
          then ((\<lambda>s. showDialog dialog animation (playClickSound s)) ^^ (menuHandlers s)) s
          else s)"

definition closeClick :: "string option \<Rightarrow> state \<Rightarrow> state" where
  "closeClick a s =
     (let dialogType = (case a of None \<Rightarrow> ''null'' | Some t \<Rightarrow> t)
      in ((\<lambda>s. hideDialog dialogType (playClickSound s)) ^^ (menuHandlers s)) s)"

definition overlayClick :: "string \<Rightarrow> bool \<Rightarrow> state \<Rightarrow> state" where
  "overlayClick dialogId exact s =
     (if dialogId \<in> set dialogs \<and> doc s dialogId \<noteq> None \<and> exact
      then ((hideDialog (replace_first ''Dialog'' [] dialogId)) ^^ (menuHandlers s)) s
      else s)"

fun step :: "state \<Rightarrow> event \<Rightarrow> state" where
  "step s Next = run_next s"
| "step s (Idle d) = idle d s"
| "step s (KeyDown key code) = keydown key code s"
| "step s ClickStart =
     (if doc s ''startText'' \<noteq> None \<and> \<not> hasStarted s then startGame s else s)"
| "step s (ClickMenu option) = menuClick option s"
| "step s (ClickClose a) = closeClick a s"
| "step s (ClickOverlay dialogId exact) = overlayClick dialogId exact s"
| "step s ClickSocial = playClickSound s"
| "step s (Resize w h) = onWindowResize (s\<lparr>innerWidth := w, innerHeight := h\<rparr>)"
| "step s (PlayResolved p) = play_then p s"
| "step s (PlayRejected p) = play_catch p s"
| "step s (LoadProgress itemsLoaded itemsTotal) =
     update_element ''.loading-progress''
       (\<lambda>e. e\<lparr>width := Some (real itemsLoaded / real itemsTotal * 100)\<rparr>) s"
| "step s LoadComplete = setTimeout HideLoading 500 s"

definition run :: "state \<Rightarrow> event list \<Rightarrow> state" where
  "run s evs = foldl step s evs"

subsection \<open>Page load\<close>

record config =
  cfg_doc :: "string \<rightharpoonup> element"
  cfg_menuItems :: "string list"
  cfg_innerWidth :: real
  cfg_innerHeight :: real
  cfg_now :: int
  cfg_rng :: "nat \<Rightarrow> real"

definition constructor :: "config \<Rightarrow> state" where
  "constructor c =
     \<lparr>hasStarted = False, currentDialog = None, currentAnimation = None,
      escapeHandler = False, clickSound = False, distortedVoices = [], lastVoiceTime = 0,
      camera_fov = 0, camera_aspect = 0, camera_position = (0, 0, 0),
      camera_projection = (0, 0), renderer_size = (0, 0), controls_target = (0, 0, 0),
      escapeOrphans = 0, menuHandlers = 0,
      now = cfg_now c, innerWidth = cfg_innerWidth c, innerHeight = cfg_innerHeight c,
      doc = cfg_doc c, menuItems = cfg_menuItems c, labels = [], nextLabel = 0,
      pending = [], plays = [], nextPlay = 0, media = [], tweens = [],
      rng = cfg_rng c, rix = 0\<rparr>"

definition createCamera :: "state \<Rightarrow> state" where
  "createCamera s =
     s\<lparr>camera_fov := 45, camera_aspect := innerWidth s / innerHeight s,
       camera_position := (0, 0, 1000),
       camera_projection := (45, innerWidth s / innerHeight s)\<rparr>"

text \<open>
  \<^verbatim>\<open>document.getElementById('canvas-container').appendChild(...)\<close> is the one lookup
  the source uses without a test: on a missing element it throws.
\<close>

definition createRenderer :: "state \<Rightarrow> error + state" where
  "createRenderer s =
     (let s1 = s\<lparr>renderer_size := (innerWidth s, innerHeight s)\<rparr>
      in case doc s1 ''canvas-container'' of
           None \<Rightarrow> Inl TypeError
         | Some e \<Rightarrow> Inr s1)"

definition createControls :: "state \<Rightarrow> state" where
  "createControls s = s\<lparr>controls_target := (0, 0, 0)\<rparr>"

text \<open>\<^verbatim>\<open>createStarfield\<close> draws three coordinates for each of 15000 stars.\<close>

definition createStarfield :: "state \<Rightarrow> state" where
  "createStarfield s = s\<lparr>rix := rix s + 15000 * 3\<rparr>"

definition showSocialMedia :: "state \<Rightarrow> state" where
  "showSocialMedia s =
     (case doc s ''socialMedia'' of
        None \<Rightarrow> s
      | Some e \<Rightarrow> setTimeout SocialVisible 100 (update_element ''socialMedia'' (classList_remove ''hidden'') s))"

definition setupStartExperience :: "state \<Rightarrow> state" where
  "setupStartExperience s = showSocialMedia s"

definition init :: "config \<Rightarrow> error + state" where
  "init c =
     (case createRenderer (createCamera (setupAudio (constructor c))) of
        Inl e \<Rightarrow> Inl e
      | Inr s \<Rightarrow> Inr (setupStartExperience (createStarfield (createControls s))))"

subsection \<open>Observations used in the properties\<close>

text \<open>
  The voice log. \<open>starts\<close> lists the times at which a clip began to play (the
  then-callback of its promise ran). \<open>cooled seen ms\<close> reads the log \<open>ms\<close> in order: at
  every play that the scheduler called, more than 60000 ms have passed since every
  start among \<open>seen\<close> and every start logged before it. \<open>scheduler_fires\<close> lists the
  times of the plays the scheduler called, and \<open>fires_spaced\<close> says that any two of
  them are at least 60000 ms apart.
\<close>

fun starts :: "media_call list \<Rightarrow> int list" where
  "starts [] = []"
| "starts (VoiceStarted p i t # ms) = t # starts ms"
| "starts (m # ms) = starts ms"

fun cooled :: "int list \<Rightarrow> media_call list \<Rightarrow> bool" where
  "cooled seen [] = True"
| "cooled seen (VoiceStarted p i t # ms) = cooled (t # seen) ms"
| "cooled seen (VoicePlay Scheduler p i t # ms) =
     ((\<forall>t0\<in>set seen. 60000 < t - t0) \<and> cooled seen ms)"
| "cooled seen (m # ms) = cooled seen ms"

definition voice_inv :: "state \<Rightarrow> bool" where
  "voice_inv s =
     (cooled [] (media s) \<and> (\<forall>t0\<in>set (starts (media s)). t0 \<le> lastVoiceTime s) \<and>
      lastVoiceTime s \<le> now s)"

fun scheduler_fires :: "media_call list \<Rightarrow> int list" where
  "scheduler_fires [] = []"
| "scheduler_fires (VoicePlay Scheduler p i t # ms) = t # scheduler_fires ms"
| "scheduler_fires (m # ms) = scheduler_fires ms"

definition fires_spaced :: "media_call list \<Rightarrow> bool" where
  "fires_spaced ms = sorted_wrt (\<lambda>a b. 60000 \<le> b - a) (scheduler_fires ms)"

text \<open>
  The start action. \<open>zoom_started\<close> counts the zoom-in tweens that have been started
  (the tweens of the camera position: only \<open>zoomToPlanet\<close> creates one);
  \<open>zoom_pending\<close> lists the timers of \<open>startGame\<close> that have not fired yet.
\<close>

definition zoom_started :: "state \<Rightarrow> nat" where
  "zoom_started s = length (filter (\<lambda>tw. fst (snd tw) = CameraPosition) (tweens s))"

definition zoom_pending :: "state \<Rightarrow> task list" where
  "zoom_pending s = filter (\<lambda>t. callback t = ZoomToPlanet) (pending s)"

definition start_inv :: "state \<Rightarrow> bool" where
  "start_inv s =
     (zoom_started s + length (zoom_pending s) = (if hasStarted s then 1 else 0) \<and>
      (\<forall>t\<in>set (zoom_pending s). period t = None))"

definition zview :: "state \<Rightarrow> bool \<times> nat \<times> task list" where
  "zview s = (hasStarted s, zoom_started s, zoom_pending s)"


text \<open>
  The timer queue. \<open>timers_ahead\<close> says that no pending task is overdue and that
  no interval has a negative period. The tasks of the presentation state machine
  (\<open>panel_cb\<close>) are the timers of the start, menu and dialog handlers and the completion
  of a tween that has an \<^verbatim>\<open>onComplete\<close>; all other tasks are ambient.
\<close>

definition ahead :: "int \<Rightarrow> task list \<Rightarrow> bool" where
  "ahead n ts = (\<forall>t\<in>set ts. n \<le> due t \<and> (\<forall>p. period t = Some p \<longrightarrow> 0 \<le> p))"

definition timers_ahead :: "state \<Rightarrow> bool" where
  "timers_ahead s = ahead (now s) (pending s)"

fun panel_cb :: "callback \<Rightarrow> bool" where
  "panel_cb ZoomToPlanet = True"
| "panel_cb MenuVisible = True"
| "panel_cb (ShowDialogTimeout d) = True"
| "panel_cb (DialogVisible d) = True"
| "panel_cb (HideDialogTimeout d) = True"
| "panel_cb (TweenComplete tgt dest oc) = oc"
| "panel_cb cb = False"

definition panel_tasks :: "state \<Rightarrow> task list" where
  "panel_tasks s = filter (\<lambda>t. panel_cb (callback t)) (pending s)"

text \<open>
  The panels. A dialog is shown when its class list has \<^verbatim>\<open>visible\<close> and not
  \<^verbatim>\<open>hidden\<close>, and hidden when it is the other way round; the menu is hidden when its
  \<^verbatim>\<open>style.display\<close> is \<^verbatim>\<open>none\<close> and shown when it is empty. \<open>menu_pose\<close> is the
  target of the camera controls in the menu view (the target \<open>zoomToPlanet\<close> and
  \<open>moveEarthToLeft\<close> move to).

  \<open>menu_state\<close> and \<open>dialog_open d\<close> are the states Menu and ShowingDialog of the
  presentation state machine at rest: the menu handlers are registered once, no timer
  of the state machine is pending, and for an open dialog the escape listener is
  registered once. \<open>dialog_opening\<close>, \<open>dialog_revealing\<close> and \<open>dialog_closing\<close> are the
  states in between, while the timer of \<open>showDialog\<close>, its inner timer, or the timer of
  \<open>hideDialog\<close> is pending; \<open>menu_returned\<close> is the Menu state after the dialog \<open>d\<close> was
  closed at time \<open>T\<close>.
\<close>

definition dialog_shown :: "string \<Rightarrow> state \<Rightarrow> bool" where
  "dialog_shown d s =
     (case doc s d of
        None \<Rightarrow> False
      | Some e \<Rightarrow> ''visible'' \<in> set (classes e) \<and> ''hidden'' \<notin> set (classes e))"

definition dialog_hidden :: "string \<Rightarrow> state \<Rightarrow> bool" where
  "dialog_hidden d s =
     (case doc s d of
        None \<Rightarrow> False
      | Some e \<Rightarrow> ''hidden'' \<in> set (classes e) \<and> ''visible'' \<notin> set (classes e))"

definition menu_shown :: "state \<Rightarrow> bool" where
  "menu_shown s = (case doc s ''gameMenu'' of None \<Rightarrow> False | Some e \<Rightarrow> display e = [])"

definition menu_hidden :: "state \<Rightarrow> bool" where
  "menu_hidden s = (case doc s ''gameMenu'' of None \<Rightarrow> False | Some e \<Rightarrow> display e = ''none'')"

definition menu_pose :: "state \<Rightarrow> vec3" where
  "menu_pose s = (tan (camera_fov s * pi / 180 / 2) * 160 * (innerWidth s / innerHeight s), 0, 0)"

definition menu_state :: "state \<Rightarrow> bool" where
  "menu_state s =
     (hasStarted s \<and> menuHandlers s = 1 \<and> menu_shown s \<and>
      (\<forall>d\<in>set dialogs. \<not> dialog_shown d s) \<and>
      \<not> escapeHandler s \<and> escapeOrphans s = 0 \<and> panel_tasks s = [] \<and> timers_ahead s)"

definition dialog_open :: "string \<Rightarrow> state \<Rightarrow> bool" where
  "dialog_open d s =
     (d \<in> set dialogs \<and> hasStarted s \<and> menuHandlers s = 1 \<and> menu_hidden s \<and>
      dialog_shown d s \<and> (\<forall>d'\<in>set dialogs. d' \<noteq> d \<longrightarrow> \<not> dialog_shown d' s) \<and>
      currentDialog s = Some d \<and> escapeHandler s \<and> escapeOrphans s = 0 \<and>
      panel_tasks s = [] \<and> timers_ahead s)"




definition dialog_opening :: "string \<Rightarrow> int \<Rightarrow> state \<Rightarrow> bool" where
  "dialog_opening d T s =
     (d \<in> set dialogs \<and> hasStarted s \<and> menuHandlers s = 1 \<and> menu_hidden s \<and>
      doc s d \<noteq> None \<and> (\<forall>d'\<in>set dialogs. d' \<noteq> d \<longrightarrow> \<not> dialog_shown d' s) \<and>
      currentDialog s = Some d \<and> escapeHandler s \<and> escapeOrphans s = 0 \<and>
      panel_tasks s = [Task (T + 500) None (ShowDialogTimeout d)] \<and> timers_ahead s)"

definition dialog_revealing :: "string \<Rightarrow> int \<Rightarrow> state \<Rightarrow> bool" where
  "dialog_revealing d T s =
     (d \<in> set dialogs \<and> hasStarted s \<and> menuHandlers s = 1 \<and> menu_hidden s \<and>
      (\<exists>e. doc s d = Some e \<and> ''hidden'' \<notin> set (classes e)) \<and>
      (\<forall>d'\<in>set dialogs. d' \<noteq> d \<longrightarrow> \<not> dialog_shown d' s) \<and>
      currentDialog s = Some d \<and> escapeHandler s \<and> escapeOrphans s = 0 \<and>
      panel_tasks s = [Task (T + 550) None (DialogVisible d)] \<and> timers_ahead s)"

text \<open>
  Events. \<open>closes d e\<close>: the event \<open>e\<close> is one of the three ways to close the dialog
  \<open>d\<close> (its close button, a click on its overlay itself, the key \<open>e\<close>). \<open>quiet e\<close>: the
  event \<open>e\<close> is no menu click, no close of a dialog and no resize. \<open>pview\<close> is the part
  of the state that the presentation state machine reads and writes.
\<close>

fun quiet :: "event \<Rightarrow> bool" where
  "quiet (ClickMenu option) = False"
| "quiet (ClickClose a) = False"
| "quiet (ClickOverlay d exact) = (\<not> exact)"
| "quiet (KeyDown key code) = (toLowerCase key \<noteq> ''e'')"
| "quiet (Resize w h) = False"
| "quiet e = True"

definition pview ::
  "state \<Rightarrow> (element option list \<times> string option \<times> bool \<times> nat \<times> nat \<times> string list \<times> bool) \<times>
            (real \<times> real \<times> real) \<times> (int \<times> tween_target \<times> int \<times> vec3) list \<times> task list" where
  "pview s =
     ((map (doc s) (''gameMenu'' # dialogs), currentDialog s, escapeHandler s, escapeOrphans s,
       menuHandlers s, menuItems s, hasStarted s),
      (camera_fov s, innerWidth s, innerHeight s), tweens s, panel_tasks s)"

text \<open>
  A menu click while a dialog is open. \<open>second_opening d0 d T\<close> and
  \<open>second_revealing d0 d T\<close> are the states while the timer of \<open>showDialog\<close> for the
  dialog \<open>d\<close>, set at time \<open>T\<close>, or its inner timer is pending and the dialog \<open>d0\<close> is
  shown; \<open>both_shown d0 d\<close> is the state at rest in which \<open>d0\<close> and \<open>d\<close> are shown.
\<close>

definition second_opening :: "string \<Rightarrow> string \<Rightarrow> int \<Rightarrow> state \<Rightarrow> bool" where
  "second_opening d0 d T s =
     (d0 \<in> set dialogs \<and> d \<in> set dialogs \<and> hasStarted s \<and> menu_hidden s \<and>
      doc s d \<noteq> None \<and> dialog_shown d0 s \<and> currentDialog s = Some d \<and>
      panel_tasks s = [Task (T + 500) None (ShowDialogTimeout d)] \<and> timers_ahead s)"

definition second_revealing :: "string \<Rightarrow> string \<Rightarrow> int \<Rightarrow> state \<Rightarrow> bool" where
  "second_revealing d0 d T s =
     (d0 \<in> set dialogs \<and> d \<in> set dialogs \<and> hasStarted s \<and> menu_hidden s \<and>
      (\<exists>e. doc s d = Some e \<and> ''hidden'' \<notin> set (classes e)) \<and>
      dialog_shown d0 s \<and> currentDialog s = Some d \<and>
      panel_tasks s = [Task (T + 550) None (DialogVisible d)] \<and> timers_ahead s)"

definition both_shown :: "string \<Rightarrow> string \<Rightarrow> state \<Rightarrow> bool" where
  "both_shown d0 d s =
     (d0 \<in> set dialogs \<and> d \<in> set dialogs \<and> hasStarted s \<and> menu_hidden s \<and>
      dialog_shown d0 s \<and> dialog_shown d s \<and> currentDialog s = Some d \<and>
      panel_tasks s = [] \<and> timers_ahead s)"

subsection \<open>A page for the examples\<close>

text \<open>
  A document that has every element the script looks up, with the menu, the dialogs and
  the social icons hidden at first; a window of \<open>w\<close> by \<open>h\<close> pixels (1920 by 1080 for
  \<open>page\<close>); a clock that starts at a time of this century; a random source that always
  draws \<open>1/10\<close>. \<open>sized_state w h\<close> and \<open>page_state\<close> are the states after page load.
\<close>

definition plain :: element where
  "plain = \<lparr>classes = [], display = [], width = None, volume = 1\<rparr>"

definition concealed :: element where
  "concealed = \<lparr>classes = [''hidden''], display = [], width = None, volume = 1\<rparr>"

definition page_doc :: "string \<rightharpoonup> element" where
  "page_doc = map_of
     [(''loading'', plain), (''.loading-progress'', plain), (''clickSound'', plain),
      (''distortedVoice1'', plain), (''distortedVoice2'', plain),
      (''canvas-container'', plain), (''startText'', plain), (''titleContainer'', plain),
      (''socialMedia'', concealed), (''gameMenu'', concealed),
      (''randomTextContainer'', plain), (''aboutDialog'', concealed),
      (''problemDialog'', concealed), (''contactDialog'', concealed),
      (''sponsorsDialog'', concealed)]"

definition page_sized :: "real \<Rightarrow> real \<Rightarrow> config" where
  "page_sized w h =
     \<lparr>cfg_doc = page_doc, cfg_menuItems = [''1'', ''2'', ''3'', ''4'', ''5''],
      cfg_innerWidth = w, cfg_innerHeight = h, cfg_now = 1700000000000,
      cfg_rng = (\<lambda>n. 1 / 10)\<rparr>"

definition page :: config where
  "page = page_sized 1920 1080"

definition sized_state :: "real \<Rightarrow> real \<Rightarrow> state" where
  "sized_state w h = projr (init (page_sized w h))"

definition page_state :: state where
  "page_state = projr (init page)"

text \<open>
  \<open>elem cs d v\<close> is an element with the class list \<open>cs\<close>, the \<^verbatim>\<open>style.display\<close> \<open>d\<close> and
  the volume \<open>v\<close>. \<open>menu_page w h\<close> is the example page in the menu: the start element was
  clicked and the timers of the start (the social icons, the zoom, the completion of its
  two tweens, the menu) have fired. \<open>about_page w h\<close> is the page after a click on menu
  item 2 and the two timers of \<open>showDialog\<close>: the dialog \<^verbatim>\<open>aboutDialog\<close> is open.
\<close>

definition elem :: "string list \<Rightarrow> string \<Rightarrow> real \<Rightarrow> element" where
  "elem cs d v = \<lparr>classes = cs, display = d, width = None, volume = v\<rparr>"

definition menu_page :: "real \<Rightarrow> real \<Rightarrow> state" where
  "menu_page w h = run (sized_state w h) [ClickStart, Next, Next, Next, Next, Next]"

definition about_page :: "real \<Rightarrow> real \<Rightarrow> state" where
  "about_page w h = run (menu_page w h) [ClickMenu ''2'', Next, Next]"

section \<open>Properties\<close>

subsection \<open>Auxiliary facts\<close>

named_theorems page_defs

declare init_def [page_defs] page_def [page_defs] page_sized_def [page_defs]
  page_doc_def [page_defs]
  plain_def [page_defs] concealed_def [page_defs] constructor_def [page_defs]
  setupAudio_def [page_defs] createCamera_def [page_defs] createRenderer_def [page_defs]
  createControls_def [page_defs] createStarfield_def [page_defs]
  setupStartExperience_def [page_defs] showSocialMedia_def [page_defs]
  update_element_def [page_defs] startRandomVoiceSystem_def [page_defs]
  setInterval_def [page_defs] setTimeout_def [page_defs] classList_remove_def [page_defs]
  classList_add_def [page_defs]

lemma init_page: "init page = Inr page_state"
  by (simp add: page_state_def page_defs)

lemma page_state_voices:
  "distortedVoices page_state = [''distortedVoice1'', ''distortedVoice2'']"
  "rng page_state = (\<lambda>n. 1 / 10)" "plays page_state = []" "media page_state = []"
  "now page_state = 1700000000000" "lastVoiceTime page_state = 0"
  "nextPlay page_state = 0" "rix page_state = 45000"
  by (simp_all add: page_state_def page_defs)

lemma page_state_container: "doc page_state ''randomTextContainer'' = Some plain"
  by (simp add: page_state_def page_defs)

lemma floor_draw_bounds:
  fixes r :: real and n :: nat
  assumes "0 \<le> r" "r < 1" "0 < n"
  shows "0 \<le> \<lfloor>r * real n\<rfloor> \<and> \<lfloor>r * real n\<rfloor> < int n"
proof -
  have "r * real n < real n" using assms by simp
  then have "\<lfloor>r * real n\<rfloor> < int n" by (simp add: floor_less_iff)
  moreover have "0 \<le> \<lfloor>r * real n\<rfloor>" using assms by simp
  ultimately show ?thesis by simp
qed

lemma techWords_length: "length techWords = 30"
  by (simp add: techWords_def)

lemma word_in_vocabulary:
  assumes "0 \<le> r" "r < 1"
  shows "(case array_get techWords \<lfloor>r * real (length techWords)\<rfloor> of
            None \<Rightarrow> [] | Some w \<Rightarrow> w) \<in> set techWords"
proof -
  have "0 \<le> \<lfloor>r * real (length techWords)\<rfloor> \<and>
        \<lfloor>r * real (length techWords)\<rfloor> < int (length techWords)"
    using floor_draw_bounds[OF assms, of "length techWords"] by (simp add: techWords_length)
  moreover from this have "nat \<lfloor>r * real (length techWords)\<rfloor> < length techWords"
    by linarith
  ultimately show ?thesis
    by (simp add: array_get_def del: of_nat_less_iff)
qed

lemma lower_keys:
  "toLowerCase ''v'' = ''v''" "toLowerCase ''V'' = ''v''" "toLowerCase ''e'' = ''e''"
  "toLowerCase ''E'' = ''e''" "toLowerCase ''Enter'' = ''enter''"
  by (simp_all add: toLowerCase_def lower_char_def)

subsection \<open>Window resize\<close>

text \<open>
  C7. For every resize event with a new viewport of width \<open>w\<close> and height \<open>h\<close>, after the
  handler has run the aspect ratio of the camera is \<open>w / h\<close>, the projection has been
  recomputed from the field of view and that aspect ratio, and the output size of the
  renderer is \<open>w\<close> by \<open>h\<close>. The height is taken positive: for a height of zero the
  quotient of the source is an infinity or not a number, which a real number cannot be.
\<close>

theorem resize_matches_viewport:
  assumes "0 < h"
  shows "(let s' = step s (Resize w h)
          in innerWidth s' = w \<and> innerHeight s' = h \<and>
             camera_aspect s' = w / h \<and>
             camera_projection s' = (camera_fov s, w / h) \<and>
             renderer_size s' = (w, h))"
  by (simp add: onWindowResize_def Let_def)

theorem resize_matches_viewport_witness:
  "(0::real) < 600 \<and>
   (let s' = step page_state (Resize 800 600)
    in innerWidth s' = 800 \<and> innerHeight s' = 600 \<and>
       camera_aspect s' = 800 / 600 \<and>
       camera_projection s' = (camera_fov page_state, 800 / 600) \<and>
       renderer_size s' = (800, 600))"
  using resize_matches_viewport[of 600 page_state 800] by simp

subsection \<open>Voice selection\<close>

text \<open>
  C10. Voice selection is total and in bounds. With an empty pool \<open>playRandomVoice\<close>
  returns the state unchanged. With a pool that is not empty, for every draw \<open>r\<close> in
  \<open>[0, 1)\<close> the index \<open>floor (r * length)\<close> is an index of the pool, so the lookup
  finds an element, the test of the selected element succeeds and \<open>play\<close> is called on it.
\<close>

theorem voice_selection_in_bounds:
  "(distortedVoices s = [] \<longrightarrow> playRandomVoice og s = s) \<and>
   (distortedVoices s \<noteq> [] \<and> 0 \<le> rng s (rix s) \<and> rng s (rix s) < 1 \<longrightarrow>
      (let i = \<lfloor>rng s (rix s) * real (length (distortedVoices s))\<rfloor>
       in 0 \<le> i \<and> i < int (length (distortedVoices s)) \<and>
          array_get (distortedVoices s) i = Some (distortedVoices s ! nat i) \<and>
          media (playRandomVoice og s) = media s @ [VoicePlay og (nextPlay s) i (now s)]))"
  using floor_draw_bounds[of "rng s (rix s)" "length (distortedVoices s)"]
  by (auto simp: playRandomVoice_def Math_random_def array_get_def Let_def)

theorem voice_selection_in_bounds_witness:
  "playRandomVoice Manual (page_state\<lparr>distortedVoices := []\<rparr>) = page_state\<lparr>distortedVoices := []\<rparr> \<and>
   distortedVoices page_state \<noteq> [] \<and> 0 \<le> rng page_state (rix page_state) \<and>
   rng page_state (rix page_state) < 1 \<and>
   array_get (distortedVoices page_state) 0 = Some ''distortedVoice1'' \<and>
   media (playRandomVoice Manual page_state) = [VoicePlay Manual (nextPlay page_state) 0 1700000000000]"
  using voice_selection_in_bounds[of "page_state\<lparr>distortedVoices := []\<rparr>" Manual]
    voice_selection_in_bounds[of page_state Manual]
  by (simp add: page_state_voices)

subsection \<open>Guarded element lookups\<close>

text \<open>
  C6. Every element lookup is guarded by a presence test, and a missing element only
  skips its effect. The handlers after page load are total functions of the state
  whatever the document holds, but page load itself is not: \<open>createRenderer\<close> uses the
  element \<^verbatim>\<open>canvas-container\<close> without a test, so page load ends in a \<open>TypeError\<close>
  exactly when that element is missing, whatever else the document holds.
\<close>

theorem init_fails_without_canvas_container:
  "(init c = Inl TypeError) = (cfg_doc c ''canvas-container'' = None) \<and>
   (\<exists>s. init c = Inr s) = (cfg_doc c ''canvas-container'' \<noteq> None)"
  by (auto simp: init_def constructor_def setupAudio_def createCamera_def createRenderer_def
      update_element_def startRandomVoiceSystem_def setInterval_def Let_def
      split: option.splits sum.splits)

subsection \<open>Text spawning\<close>

text \<open>
  C8. The text timer ticks every 800 ms, a shorter interval than the 25000 ms of the
  voice timer. A tick spawns a label only when its first draw is above \<open>0.4\<close>. A spawned
  label has a text of the fixed vocabulary, a left position in \<open>[0, 300)\<close> and a top
  position in \<open>[200, 700)\<close>, the fade variant exactly when the second draw is above
  \<open>0.7\<close>, and a timer that removes it 4000 ms later.
\<close>

theorem text_spawn_tick:
  assumes "doc s ''randomTextContainer'' \<noteq> None"
    and "\<forall>k<5. 0 \<le> rng s (rix s + k) \<and> rng s (rix s + k) < 1"
  shows "pending (startRandomTextSpawning s) =
           pending s @ [Task (now s + 800) (Some 800) SpawnInterval] \<and>
     pending (startRandomVoiceSystem s) =
           pending s @ [Task (now s + 25000) (Some 25000) VoiceInterval] \<and>
     (rng s (rix s) \<le> 0.4 \<longrightarrow>
        labels (fire SpawnInterval s) = labels s \<and> pending (fire SpawnInterval s) = pending s) \<and>
     (rng s (rix s) > 0.4 \<longrightarrow>
        (\<exists>l. labels (fire SpawnInterval s) = labels s @ [l] \<and>
             l_text l \<in> set techWords \<and>
             0 \<le> l_left l \<and> l_left l < 300 \<and> 200 \<le> l_top l \<and> l_top l < 700 \<and>
             l_fade l = (rng s (rix s + 1) > 0.7) \<and>
             pending (fire SpawnInterval s) =
               pending s @ [Task (now s + 4000) None (RemoveLabel (l_id l))] \<and>
             (\<forall>s'. l \<notin> set (labels (fire (RemoveLabel (l_id l)) s')))))"
proof -
  have r: "0 \<le> rng s (rix s + k) \<and> rng s (rix s + k) < 1" if "k < 5" for k
    using assms(2) that by blast
  have w: "(case array_get techWords \<lfloor>rng s (Suc (Suc (rix s))) * real (length techWords)\<rfloor> of
              None \<Rightarrow> [] | Some w \<Rightarrow> w) \<in> set techWords"
    using word_in_vocabulary[of "rng s (rix s + 2)"] r[of 2] by simp
  have l: "0 \<le> rng s (Suc (Suc (Suc (rix s)))) * 300 \<and>
           rng s (Suc (Suc (Suc (rix s)))) * 300 < 300"
    using r[of 3] by (simp add: numeral_3_eq_3)
  have t: "200 \<le> rng s (Suc (Suc (Suc (Suc (rix s))))) * 500 + 200 \<and>
           rng s (Suc (Suc (Suc (Suc (rix s))))) * 500 + 200 < 700"
    using r[of 4] by (simp add: eval_nat_numeral)
  show ?thesis
    using assms(1) w l t
    by (auto simp: startRandomTextSpawning_def startRandomVoiceSystem_def setInterval_def
        spawnTick_def spawnText_def Math_random_def setTimeout_def Let_def)
qed

theorem text_spawn_tick_witness:
  "doc (page_state\<lparr>rng := \<lambda>n. 3 / 4\<rparr>) ''randomTextContainer'' \<noteq> None \<and>
   (\<exists>l. labels (fire SpawnInterval (page_state\<lparr>rng := \<lambda>n. 3 / 4\<rparr>)) = labels page_state @ [l] \<and>
        l_text l \<in> set techWords \<and>
        0 \<le> l_left l \<and> l_left l < 300 \<and> 200 \<le> l_top l \<and> l_top l < 700 \<and> l_fade l \<and>
        pending (fire SpawnInterval (page_state\<lparr>rng := \<lambda>n. 3 / 4\<rparr>)) =
          pending page_state @ [Task (1700000000000 + 4000) None (RemoveLabel (l_id l))])"
  using text_spawn_tick[of "page_state\<lparr>rng := \<lambda>n. 3 / 4\<rparr>"]
  by (simp add: page_state_container page_state_voices)

subsection \<open>The manual voice key\<close>

text \<open>
  C9. The key \<open>v\<close> calls \<open>playRandomVoice\<close> directly: whatever the time of the last
  voice, and with the index draw as its only draw, a clip is played. When the play
  succeeds, the time of the last voice becomes the current time, and as long as no more
  than 60000 ms have passed since then a tick of the voice timer plays nothing. A second
  key press at once plays again, so two plays can be less than the cooldown apart.
\<close>

theorem manual_voice_key_bypasses_checks:
  assumes "distortedVoices s \<noteq> []"
    and "0 \<le> rng s (rix s) \<and> rng s (rix s) < 1"
    and "0 \<le> rng s (Suc (rix s)) \<and> rng s (Suc (rix s)) < 1"
    and "toLowerCase key = ''v''" and "code \<noteq> ''Enter''"
    and "\<forall>q\<in>set (plays s). fst q \<noteq> nextPlay s"
  shows "(let i = \<lfloor>rng s (rix s) * real (length (distortedVoices s))\<rfloor>;
              j = \<lfloor>rng s (Suc (rix s)) * real (length (distortedVoices s))\<rfloor>;
              p = nextPlay s;
              s1 = step s (KeyDown key code);
              s2 = step s1 (PlayResolved p);
              s3 = step s2 (KeyDown key code)
          in s1 = playRandomVoice Manual s \<and>
             media s1 = media s @ [VoicePlay Manual p i (now s)] \<and>
             rix s1 = Suc (rix s) \<and>
             lastVoiceTime s2 = now s \<and>
             media s2 = media s1 @ [VoiceStarted p i (now s)] \<and>
             media s3 = media s2 @ [VoicePlay Manual (Suc p) j (now s)]) \<and>
         (\<forall>s'. now s' - lastVoiceTime s' \<le> 60000 \<longrightarrow> media (fire VoiceInterval s') = media s')"
proof -
  have e: "escapeKey key = id"
    using assms(4) by (auto simp: escapeKey_def)
  have k: "step s' (KeyDown key code) = playRandomVoice Manual s'" for s'
    using assms(4,5) by (simp add: keydown_def e Let_def id_funpow)
  have b: "0 \<le> \<lfloor>rng s (rix s) * real (length (distortedVoices s))\<rfloor> \<and>
           \<lfloor>rng s (rix s) * real (length (distortedVoices s))\<rfloor> < int (length (distortedVoices s))"
    using floor_draw_bounds[of "rng s (rix s)" "length (distortedVoices s)"] assms(1,2) by simp
  have c: "0 \<le> \<lfloor>rng s (Suc (rix s)) * real (length (distortedVoices s))\<rfloor> \<and>
           \<lfloor>rng s (Suc (rix s)) * real (length (distortedVoices s))\<rfloor> < int (length (distortedVoices s))"
    using floor_draw_bounds[of "rng s (Suc (rix s))" "length (distortedVoices s)"] assms(1,3) by simp
  have m: "map_of (plays s) (nextPlay s) = None"
    using assms(6) by (force simp: map_of_eq_None_iff)
  have "media (fire VoiceInterval s') = media s'" if "now s' - lastVoiceTime s' \<le> 60000" for s'
    using that by (simp add: maybePlayRandomVoice_def Math_random_def Let_def)
  then show ?thesis
    unfolding k using assms(1) b c m
    by (simp add: playRandomVoice_def Math_random_def array_get_def Let_def play_then_def
        setTimeout_def map_add_def)
qed

theorem manual_voice_key_bypasses_checks_witness:
  "distortedVoices page_state \<noteq> [] \<and> toLowerCase ''v'' = ''v'' \<and>
   lastVoiceTime page_state = 0 \<and>
   (let s1 = step page_state (KeyDown ''v'' ''KeyV'');
        s2 = step s1 (PlayResolved 0);
        s3 = step s2 (KeyDown ''v'' ''KeyV'')
    in media s3 = [VoicePlay Manual 0 0 1700000000000, VoiceStarted 0 0 1700000000000,
                   VoicePlay Manual 1 0 1700000000000] \<and>
       lastVoiceTime s2 = 1700000000000) \<and>
   media (fire VoiceInterval (page_state\<lparr>lastVoiceTime := 1700000000000, now := 1700000060000\<rparr>))
     = media page_state"
  using manual_voice_key_bypasses_checks[of page_state "''v''" "''KeyV''"]
  by (auto simp add: page_state_voices lower_keys Let_def)

subsection \<open>Fields that the handlers leave alone\<close>

text \<open>
  Invariants of runs, the primitives' effects on the fields they write, and for each
  handler the list of the fields it does not write.
\<close>

lemma funpow_invariant:
  assumes "\<And>x. P x \<Longrightarrow> P (f x)" and "P x"
  shows "P ((f ^^ n) x)"
  using assms(2) by (induction n) (auto intro: assms(1))

lemma run_invariant:
  assumes "\<And>s e. P s \<Longrightarrow> P (step s e)" and "P s"
  shows "P (run s evs)"
  using assms(2) unfolding run_def
  by (induction evs arbitrary: s) (auto intro: assms(1))

lemma next_task_None: "(next_task ts = None) = (ts = [])"
  by (induction ts) (auto split: option.splits prod.splits)

lemma next_task_split:
  "next_task ts = Some (t, rest) \<Longrightarrow> \<exists>xs ys. ts = xs @ t # ys \<and> rest = xs @ ys"
proof (induction ts arbitrary: t rest)
  case Nil
  then show ?case by simp
next
  case (Cons a ts)
  show ?case
  proof (cases "next_task ts")
    case None
    with Cons.prems show ?thesis by (auto simp: next_task_None)
  next
    case (Some ur)
    obtain u r where ur: "ur = (u, r)" by (cases ur)
    from Cons.IH[of u r] Some ur obtain xs ys where x: "ts = xs @ u # ys" "r = xs @ ys" by auto
    show ?thesis
    proof (cases "due a \<le> due u")
      case True
      with Cons.prems Some ur have "t = a" "rest = ts" by auto
      then show ?thesis by (intro exI[of _ "[]"] exI[of _ ts]) simp
    next
      case False
      with Cons.prems Some ur have "t = u" "rest = a # r" by auto
      with x show ?thesis by (intro exI[of _ "a # xs"] exI[of _ ys]) simp
    qed
  qed
qed

lemma next_task_least:
  "next_task ts = Some (t, rest) \<Longrightarrow> \<forall>u\<in>set ts. due t \<le> due u"
proof (induction ts arbitrary: t rest)
  case Nil
  then show ?case by simp
next
  case (Cons a ts)
  show ?case
  proof (cases "next_task ts")
    case None
    then have "ts = []" by (simp add: next_task_None)
    with Cons.prems show ?thesis by auto
  next
    case (Some vr)
    obtain v r where vr: "vr = (v, r)" by (cases vr)
    have l: "\<forall>w\<in>set ts. due v \<le> due w" using Cons.IH[of v r] Some vr by auto
    show ?thesis
    proof (cases "due a \<le> due v")
      case True
      with Cons.prems Some vr have "t = a" by auto
      with True l show ?thesis by fastforce
    next
      case False
      with Cons.prems Some vr have "t = v" by auto
      with False l show ?thesis by fastforce
    qed
  qed
qed



lemma primitive_changes [simp]:
  "doc (update_element i f s) k = (if k = i then map_option f (doc s i) else doc s k)"
  "pending (setTimeout cb ms s) = pending s @ [Task (now s + ms) None cb]"
  "pending (setInterval cb ms s) = pending s @ [Task (now s + ms) (Some ms) cb]"
  "tweens (gsap_to tgt ms dest oc s) = tweens s @ [(now s, tgt, ms, dest)]"
  "pending (gsap_to tgt ms dest oc s) =
     pending s @ [Task (now s + ms) None (TweenComplete tgt dest oc)]"
  "media (playClickSound s) = media s @ (if clickSound s then [ClickPlay (now s)] else [])"
  "escapeHandler (addEscapeListener s) = True"
  "escapeOrphans (addEscapeListener s) = escapeOrphans s + (if escapeHandler s then 1 else 0)"
  "escapeHandler (removeEscapeListener s) = False"
  "menuHandlers (setupMenuInteractions s) = Suc (menuHandlers s)"
  by (auto simp: update_element_def setTimeout_def setInterval_def gsap_to_def
      playClickSound_def addEscapeListener_def removeEscapeListener_def
      setupMenuInteractions_def split: option.splits)

lemma update_element_fields [simp]:
  "hasStarted (update_element i f s) = hasStarted s"
  "currentDialog (update_element i f s) = currentDialog s"
  "currentAnimation (update_element i f s) = currentAnimation s"
  "escapeHandler (update_element i f s) = escapeHandler s"
  "clickSound (update_element i f s) = clickSound s"
  "distortedVoices (update_element i f s) = distortedVoices s"
  "lastVoiceTime (update_element i f s) = lastVoiceTime s"
  "camera_fov (update_element i f s) = camera_fov s"
  "camera_aspect (update_element i f s) = camera_aspect s"
  "camera_position (update_element i f s) = camera_position s"
  "camera_projection (update_element i f s) = camera_projection s"
  "renderer_size (update_element i f s) = renderer_size s"
  "controls_target (update_element i f s) = controls_target s"
  "escapeOrphans (update_element i f s) = escapeOrphans s"
  "menuHandlers (update_element i f s) = menuHandlers s"
  "now (update_element i f s) = now s" "innerWidth (update_element i f s) = innerWidth s"
  "innerHeight (update_element i f s) = innerHeight s"
  "menuItems (update_element i f s) = menuItems s"
  "labels (update_element i f s) = labels s"
  "nextLabel (update_element i f s) = nextLabel s"
  "pending (update_element i f s) = pending s" "plays (update_element i f s) = plays s"
  "nextPlay (update_element i f s) = nextPlay s" "media (update_element i f s) = media s"
  "tweens (update_element i f s) = tweens s" "rng (update_element i f s) = rng s"
  "rix (update_element i f s) = rix s"
  by (simp_all add: update_element_def split: option.splits)

lemma setTimeout_fields [simp]:
  "hasStarted (setTimeout cb ms s) = hasStarted s"
  "currentDialog (setTimeout cb ms s) = currentDialog s"
  "currentAnimation (setTimeout cb ms s) = currentAnimation s"
  "escapeHandler (setTimeout cb ms s) = escapeHandler s"
  "clickSound (setTimeout cb ms s) = clickSound s"
  "distortedVoices (setTimeout cb ms s) = distortedVoices s"
  "lastVoiceTime (setTimeout cb ms s) = lastVoiceTime s"
  "camera_fov (setTimeout cb ms s) = camera_fov s"
  "camera_aspect (setTimeout cb ms s) = camera_aspect s"
  "camera_position (setTimeout cb ms s) = camera_position s"
  "camera_projection (setTimeout cb ms s) = camera_projection s"
  "renderer_size (setTimeout cb ms s) = renderer_size s"
  "controls_target (setTimeout cb ms s) = controls_target s"
  "escapeOrphans (setTimeout cb ms s) = escapeOrphans s"
  "menuHandlers (setTimeout cb ms s) = menuHandlers s" "now (setTimeout cb ms s) = now s"
  "innerWidth (setTimeout cb ms s) = innerWidth s"
  "innerHeight (setTimeout cb ms s) = innerHeight s" "doc (setTimeout cb ms s) = doc s"
  "menuItems (setTimeout cb ms s) = menuItems s" "labels (setTimeout cb ms s) = labels s"
  "nextLabel (setTimeout cb ms s) = nextLabel s" "plays (setTimeout cb ms s) = plays s"
  "nextPlay (setTimeout cb ms s) = nextPlay s" "media (setTimeout cb ms s) = media s"
  "tweens (setTimeout cb ms s) = tweens s" "rng (setTimeout cb ms s) = rng s"
  "rix (setTimeout cb ms s) = rix s"
  by (simp_all add: setTimeout_def)

lemma setInterval_fields [simp]:
  "hasStarted (setInterval cb ms s) = hasStarted s"
  "currentDialog (setInterval cb ms s) = currentDialog s"
  "currentAnimation (setInterval cb ms s) = currentAnimation s"
  "escapeHandler (setInterval cb ms s) = escapeHandler s"
  "clickSound (setInterval cb ms s) = clickSound s"
  "distortedVoices (setInterval cb ms s) = distortedVoices s"
  "lastVoiceTime (setInterval cb ms s) = lastVoiceTime s"
  "camera_fov (setInterval cb ms s) = camera_fov s"
  "camera_aspect (setInterval cb ms s) = camera_aspect s"
  "camera_position (setInterval cb ms s) = camera_position s"
  "camera_projection (setInterval cb ms s) = camera_projection s"
  "renderer_size (setInterval cb ms s) = renderer_size s"
  "controls_target (setInterval cb ms s) = controls_target s"
  "escapeOrphans (setInterval cb ms s) = escapeOrphans s"
  "menuHandlers (setInterval cb ms s) = menuHandlers s" "now (setInterval cb ms s) = now s"
  "innerWidth (setInterval cb ms s) = innerWidth s"
  "innerHeight (setInterval cb ms s) = innerHeight s" "doc (setInterval cb ms s) = doc s"
  "menuItems (setInterval cb ms s) = menuItems s" "labels (setInterval cb ms s) = labels s"
  "nextLabel (setInterval cb ms s) = nextLabel s" "plays (setInterval cb ms s) = plays s"
  "nextPlay (setInterval cb ms s) = nextPlay s" "media (setInterval cb ms s) = media s"
  "tweens (setInterval cb ms s) = tweens s" "rng (setInterval cb ms s) = rng s"
  "rix (setInterval cb ms s) = rix s"
  by (simp_all add: setInterval_def)

lemma gsap_to_fields [simp]:
  "hasStarted (gsap_to tgt ms dest oc s) = hasStarted s"
  "currentDialog (gsap_to tgt ms dest oc s) = currentDialog s"
  "currentAnimation (gsap_to tgt ms dest oc s) = currentAnimation s"
  "escapeHandler (gsap_to tgt ms dest oc s) = escapeHandler s"
  "clickSound (gsap_to tgt ms dest oc s) = clickSound s"
  "distortedVoices (gsap_to tgt ms dest oc s) = distortedVoices s"
  "lastVoiceTime (gsap_to tgt ms dest oc s) = lastVoiceTime s"
  "camera_fov (gsap_to tgt ms dest oc s) = camera_fov s"
  "camera_aspect (gsap_to tgt ms dest oc s) = camera_aspect s"
  "camera_position (gsap_to tgt ms dest oc s) = camera_position s"
  "camera_projection (gsap_to tgt ms dest oc s) = camera_projection s"
  "renderer_size (gsap_to tgt ms dest oc s) = renderer_size s"
  "controls_target (gsap_to tgt ms dest oc s) = controls_target s"
  "escapeOrphans (gsap_to tgt ms dest oc s) = escapeOrphans s"
  "menuHandlers (gsap_to tgt ms dest oc s) = menuHandlers s"
  "now (gsap_to tgt ms dest oc s) = now s"
  "innerWidth (gsap_to tgt ms dest oc s) = innerWidth s"
  "innerHeight (gsap_to tgt ms dest oc s) = innerHeight s"
  "doc (gsap_to tgt ms dest oc s) = doc s"
  "menuItems (gsap_to tgt ms dest oc s) = menuItems s"
  "labels (gsap_to tgt ms dest oc s) = labels s"
  "nextLabel (gsap_to tgt ms dest oc s) = nextLabel s"
  "plays (gsap_to tgt ms dest oc s) = plays s"
  "nextPlay (gsap_to tgt ms dest oc s) = nextPlay s"
  "media (gsap_to tgt ms dest oc s) = media s" "rng (gsap_to tgt ms dest oc s) = rng s"
  "rix (gsap_to tgt ms dest oc s) = rix s"
  by (simp_all add: gsap_to_def)

lemma playClickSound_fields [simp]:
  "hasStarted (playClickSound s) = hasStarted s"
  "currentDialog (playClickSound s) = currentDialog s"
  "currentAnimation (playClickSound s) = currentAnimation s"
  "escapeHandler (playClickSound s) = escapeHandler s"
  "clickSound (playClickSound s) = clickSound s"
  "distortedVoices (playClickSound s) = distortedVoices s"
  "lastVoiceTime (playClickSound s) = lastVoiceTime s"
  "camera_fov (playClickSound s) = camera_fov s"
  "camera_aspect (playClickSound s) = camera_aspect s"
  "camera_position (playClickSound s) = camera_position s"
  "camera_projection (playClickSound s) = camera_projection s"
  "renderer_size (playClickSound s) = renderer_size s"
  "controls_target (playClickSound s) = controls_target s"
  "escapeOrphans (playClickSound s) = escapeOrphans s"
  "menuHandlers (playClickSound s) = menuHandlers s" "now (playClickSound s) = now s"
  "innerWidth (playClickSound s) = innerWidth s"
  "innerHeight (playClickSound s) = innerHeight s" "doc (playClickSound s) = doc s"
  "menuItems (playClickSound s) = menuItems s" "labels (playClickSound s) = labels s"
  "nextLabel (playClickSound s) = nextLabel s" "pending (playClickSound s) = pending s"
  "plays (playClickSound s) = plays s" "nextPlay (playClickSound s) = nextPlay s"
  "tweens (playClickSound s) = tweens s" "rng (playClickSound s) = rng s"
  "rix (playClickSound s) = rix s"
  by (simp_all add: playClickSound_def)

lemma addEscapeListener_fields [simp]:
  "hasStarted (addEscapeListener s) = hasStarted s"
  "currentDialog (addEscapeListener s) = currentDialog s"
  "currentAnimation (addEscapeListener s) = currentAnimation s"
  "clickSound (addEscapeListener s) = clickSound s"
  "distortedVoices (addEscapeListener s) = distortedVoices s"
  "lastVoiceTime (addEscapeListener s) = lastVoiceTime s"
  "camera_fov (addEscapeListener s) = camera_fov s"
  "camera_aspect (addEscapeListener s) = camera_aspect s"
  "camera_position (addEscapeListener s) = camera_position s"
  "camera_projection (addEscapeListener s) = camera_projection s"
  "renderer_size (addEscapeListener s) = renderer_size s"
  "controls_target (addEscapeListener s) = controls_target s"
  "menuHandlers (addEscapeListener s) = menuHandlers s" "now (addEscapeListener s) = now s"
  "innerWidth (addEscapeListener s) = innerWidth s"
  "innerHeight (addEscapeListener s) = innerHeight s" "doc (addEscapeListener s) = doc s"
  "menuItems (addEscapeListener s) = menuItems s" "labels (addEscapeListener s) = labels s"
  "nextLabel (addEscapeListener s) = nextLabel s"
  "pending (addEscapeListener s) = pending s" "plays (addEscapeListener s) = plays s"
  "nextPlay (addEscapeListener s) = nextPlay s" "media (addEscapeListener s) = media s"
  "tweens (addEscapeListener s) = tweens s" "rng (addEscapeListener s) = rng s"
  "rix (addEscapeListener s) = rix s"
  by (simp_all add: addEscapeListener_def)

lemma removeEscapeListener_fields [simp]:
  "hasStarted (removeEscapeListener s) = hasStarted s"
  "currentDialog (removeEscapeListener s) = currentDialog s"
  "currentAnimation (removeEscapeListener s) = currentAnimation s"
  "clickSound (removeEscapeListener s) = clickSound s"
  "distortedVoices (removeEscapeListener s) = distortedVoices s"
  "lastVoiceTime (removeEscapeListener s) = lastVoiceTime s"
  "camera_fov (removeEscapeListener s) = camera_fov s"
  "camera_aspect (removeEscapeListener s) = camera_aspect s"
  "camera_position (removeEscapeListener s) = camera_position s"
  "camera_projection (removeEscapeListener s) = camera_projection s"
  "renderer_size (removeEscapeListener s) = renderer_size s"
  "controls_target (removeEscapeListener s) = controls_target s"
  "escapeOrphans (removeEscapeListener s) = escapeOrphans s"
  "menuHandlers (removeEscapeListener s) = menuHandlers s"
  "now (removeEscapeListener s) = now s"
  "innerWidth (removeEscapeListener s) = innerWidth s"
  "innerHeight (removeEscapeListener s) = innerHeight s"
  "doc (removeEscapeListener s) = doc s" "menuItems (removeEscapeListener s) = menuItems s"
  "labels (removeEscapeListener s) = labels s"
  "nextLabel (removeEscapeListener s) = nextLabel s"
  "pending (removeEscapeListener s) = pending s" "plays (removeEscapeListener s) = plays s"
  "nextPlay (removeEscapeListener s) = nextPlay s"
  "media (removeEscapeListener s) = media s" "tweens (removeEscapeListener s) = tweens s"
  "rng (removeEscapeListener s) = rng s" "rix (removeEscapeListener s) = rix s"
  by (simp_all add: removeEscapeListener_def)

lemma setupMenuInteractions_fields [simp]:
  "hasStarted (setupMenuInteractions s) = hasStarted s"
  "currentDialog (setupMenuInteractions s) = currentDialog s"
  "currentAnimation (setupMenuInteractions s) = currentAnimation s"
  "escapeHandler (setupMenuInteractions s) = escapeHandler s"
  "clickSound (setupMenuInteractions s) = clickSound s"
  "distortedVoices (setupMenuInteractions s) = distortedVoices s"
  "lastVoiceTime (setupMenuInteractions s) = lastVoiceTime s"
  "camera_fov (setupMenuInteractions s) = camera_fov s"
  "camera_aspect (setupMenuInteractions s) = camera_aspect s"
  "camera_position (setupMenuInteractions s) = camera_position s"
  "camera_projection (setupMenuInteractions s) = camera_projection s"
  "renderer_size (setupMenuInteractions s) = renderer_size s"
  "controls_target (setupMenuInteractions s) = controls_target s"
  "escapeOrphans (setupMenuInteractions s) = escapeOrphans s"
  "now (setupMenuInteractions s) = now s"
  "innerWidth (setupMenuInteractions s) = innerWidth s"
  "innerHeight (setupMenuInteractions s) = innerHeight s"
  "doc (setupMenuInteractions s) = doc s"
  "menuItems (setupMenuInteractions s) = menuItems s"
  "labels (setupMenuInteractions s) = labels s"
  "nextLabel (setupMenuInteractions s) = nextLabel s"
  "pending (setupMenuInteractions s) = pending s"
  "plays (setupMenuInteractions s) = plays s"
  "nextPlay (setupMenuInteractions s) = nextPlay s"
  "media (setupMenuInteractions s) = media s" "tweens (setupMenuInteractions s) = tweens s"
  "rng (setupMenuInteractions s) = rng s" "rix (setupMenuInteractions s) = rix s"
  by (simp_all add: setupMenuInteractions_def)

lemma zoomToPlanet_fields [simp]:
  "hasStarted (zoomToPlanet s) = hasStarted s"
  "currentDialog (zoomToPlanet s) = currentDialog s"
  "currentAnimation (zoomToPlanet s) = currentAnimation s"
  "escapeHandler (zoomToPlanet s) = escapeHandler s"
  "clickSound (zoomToPlanet s) = clickSound s"
  "distortedVoices (zoomToPlanet s) = distortedVoices s"
  "lastVoiceTime (zoomToPlanet s) = lastVoiceTime s"
  "camera_fov (zoomToPlanet s) = camera_fov s"
  "camera_aspect (zoomToPlanet s) = camera_aspect s"
  "camera_position (zoomToPlanet s) = camera_position s"
  "camera_projection (zoomToPlanet s) = camera_projection s"
  "renderer_size (zoomToPlanet s) = renderer_size s"
  "controls_target (zoomToPlanet s) = controls_target s"
  "escapeOrphans (zoomToPlanet s) = escapeOrphans s"
  "menuHandlers (zoomToPlanet s) = menuHandlers s" "now (zoomToPlanet s) = now s"
  "innerWidth (zoomToPlanet s) = innerWidth s"
  "innerHeight (zoomToPlanet s) = innerHeight s" "doc (zoomToPlanet s) = doc s"
  "menuItems (zoomToPlanet s) = menuItems s" "labels (zoomToPlanet s) = labels s"
  "nextLabel (zoomToPlanet s) = nextLabel s" "plays (zoomToPlanet s) = plays s"
  "nextPlay (zoomToPlanet s) = nextPlay s" "media (zoomToPlanet s) = media s"
  "rng (zoomToPlanet s) = rng s" "rix (zoomToPlanet s) = rix s"
  by (simp_all add: zoomToPlanet_def Let_def)

lemma moveEarthTo_fields [simp]:
  "hasStarted (moveEarthTo d s) = hasStarted s"
  "currentDialog (moveEarthTo d s) = currentDialog s"
  "currentAnimation (moveEarthTo d s) = currentAnimation s"
  "escapeHandler (moveEarthTo d s) = escapeHandler s"
  "clickSound (moveEarthTo d s) = clickSound s"
  "distortedVoices (moveEarthTo d s) = distortedVoices s"
  "lastVoiceTime (moveEarthTo d s) = lastVoiceTime s"
  "camera_fov (moveEarthTo d s) = camera_fov s"
  "camera_aspect (moveEarthTo d s) = camera_aspect s"
  "camera_position (moveEarthTo d s) = camera_position s"
  "camera_projection (moveEarthTo d s) = camera_projection s"
  "renderer_size (moveEarthTo d s) = renderer_size s"
  "controls_target (moveEarthTo d s) = controls_target s"
  "escapeOrphans (moveEarthTo d s) = escapeOrphans s"
  "menuHandlers (moveEarthTo d s) = menuHandlers s" "now (moveEarthTo d s) = now s"
  "innerWidth (moveEarthTo d s) = innerWidth s"
  "innerHeight (moveEarthTo d s) = innerHeight s" "doc (moveEarthTo d s) = doc s"
  "menuItems (moveEarthTo d s) = menuItems s" "labels (moveEarthTo d s) = labels s"
  "nextLabel (moveEarthTo d s) = nextLabel s" "plays (moveEarthTo d s) = plays s"
  "nextPlay (moveEarthTo d s) = nextPlay s" "media (moveEarthTo d s) = media s"
  "rng (moveEarthTo d s) = rng s" "rix (moveEarthTo d s) = rix s"
  by (simp_all add: moveEarthTo_def Let_def split: prod.splits)

lemma moveEarthToLeft_fields [simp]:
  "hasStarted (moveEarthToLeft s) = hasStarted s"
  "currentDialog (moveEarthToLeft s) = currentDialog s"
  "currentAnimation (moveEarthToLeft s) = currentAnimation s"
  "escapeHandler (moveEarthToLeft s) = escapeHandler s"
  "clickSound (moveEarthToLeft s) = clickSound s"
  "distortedVoices (moveEarthToLeft s) = distortedVoices s"
  "lastVoiceTime (moveEarthToLeft s) = lastVoiceTime s"
  "camera_fov (moveEarthToLeft s) = camera_fov s"
  "camera_aspect (moveEarthToLeft s) = camera_aspect s"
  "camera_position (moveEarthToLeft s) = camera_position s"
  "camera_projection (moveEarthToLeft s) = camera_projection s"
  "renderer_size (moveEarthToLeft s) = renderer_size s"
  "controls_target (moveEarthToLeft s) = controls_target s"
  "escapeOrphans (moveEarthToLeft s) = escapeOrphans s"
  "menuHandlers (moveEarthToLeft s) = menuHandlers s" "now (moveEarthToLeft s) = now s"
  "innerWidth (moveEarthToLeft s) = innerWidth s"
  "innerHeight (moveEarthToLeft s) = innerHeight s" "doc (moveEarthToLeft s) = doc s"
  "menuItems (moveEarthToLeft s) = menuItems s" "labels (moveEarthToLeft s) = labels s"
  "nextLabel (moveEarthToLeft s) = nextLabel s" "plays (moveEarthToLeft s) = plays s"
  "nextPlay (moveEarthToLeft s) = nextPlay s" "media (moveEarthToLeft s) = media s"
  "rng (moveEarthToLeft s) = rng s" "rix (moveEarthToLeft s) = rix s"
  by (simp_all add: moveEarthToLeft_def Let_def)

lemma onWindowResize_fields [simp]:
  "hasStarted (onWindowResize s) = hasStarted s"
  "currentDialog (onWindowResize s) = currentDialog s"
  "currentAnimation (onWindowResize s) = currentAnimation s"
  "escapeHandler (onWindowResize s) = escapeHandler s"
  "clickSound (onWindowResize s) = clickSound s"
  "distortedVoices (onWindowResize s) = distortedVoices s"
  "lastVoiceTime (onWindowResize s) = lastVoiceTime s"
  "camera_fov (onWindowResize s) = camera_fov s"
  "camera_position (onWindowResize s) = camera_position s"
  "controls_target (onWindowResize s) = controls_target s"
  "escapeOrphans (onWindowResize s) = escapeOrphans s"
  "menuHandlers (onWindowResize s) = menuHandlers s" "now (onWindowResize s) = now s"
  "innerWidth (onWindowResize s) = innerWidth s"
  "innerHeight (onWindowResize s) = innerHeight s" "doc (onWindowResize s) = doc s"
  "menuItems (onWindowResize s) = menuItems s" "labels (onWindowResize s) = labels s"
  "nextLabel (onWindowResize s) = nextLabel s" "pending (onWindowResize s) = pending s"
  "plays (onWindowResize s) = plays s" "nextPlay (onWindowResize s) = nextPlay s"
  "media (onWindowResize s) = media s" "tweens (onWindowResize s) = tweens s"
  "rng (onWindowResize s) = rng s" "rix (onWindowResize s) = rix s"
  by (simp_all add: onWindowResize_def Let_def)

lemma startGame_fields [simp]:
  "currentDialog (startGame s) = currentDialog s"
  "currentAnimation (startGame s) = currentAnimation s"
  "escapeHandler (startGame s) = escapeHandler s" "clickSound (startGame s) = clickSound s"
  "distortedVoices (startGame s) = distortedVoices s"
  "lastVoiceTime (startGame s) = lastVoiceTime s" "camera_fov (startGame s) = camera_fov s"
  "camera_aspect (startGame s) = camera_aspect s"
  "camera_position (startGame s) = camera_position s"
  "camera_projection (startGame s) = camera_projection s"
  "renderer_size (startGame s) = renderer_size s"
  "controls_target (startGame s) = controls_target s"
  "escapeOrphans (startGame s) = escapeOrphans s"
  "menuHandlers (startGame s) = menuHandlers s" "now (startGame s) = now s"
  "innerWidth (startGame s) = innerWidth s" "innerHeight (startGame s) = innerHeight s"
  "menuItems (startGame s) = menuItems s" "labels (startGame s) = labels s"
  "nextLabel (startGame s) = nextLabel s" "plays (startGame s) = plays s"
  "nextPlay (startGame s) = nextPlay s" "tweens (startGame s) = tweens s"
  "rng (startGame s) = rng s" "rix (startGame s) = rix s"
  by (simp_all add: startGame_def Let_def)

lemma showGameMenu_fields [simp]:
  "hasStarted (showGameMenu s) = hasStarted s"
  "currentDialog (showGameMenu s) = currentDialog s"
  "currentAnimation (showGameMenu s) = currentAnimation s"
  "escapeHandler (showGameMenu s) = escapeHandler s"
  "clickSound (showGameMenu s) = clickSound s"
  "distortedVoices (showGameMenu s) = distortedVoices s"
  "lastVoiceTime (showGameMenu s) = lastVoiceTime s"
  "camera_fov (showGameMenu s) = camera_fov s"
  "camera_aspect (showGameMenu s) = camera_aspect s"
  "camera_position (showGameMenu s) = camera_position s"
  "camera_projection (showGameMenu s) = camera_projection s"
  "renderer_size (showGameMenu s) = renderer_size s"
  "controls_target (showGameMenu s) = controls_target s"
  "escapeOrphans (showGameMenu s) = escapeOrphans s"
  "menuHandlers (showGameMenu s) = menuHandlers s" "now (showGameMenu s) = now s"
  "innerWidth (showGameMenu s) = innerWidth s"
  "innerHeight (showGameMenu s) = innerHeight s" "menuItems (showGameMenu s) = menuItems s"
  "labels (showGameMenu s) = labels s" "nextLabel (showGameMenu s) = nextLabel s"
  "plays (showGameMenu s) = plays s" "nextPlay (showGameMenu s) = nextPlay s"
  "media (showGameMenu s) = media s" "tweens (showGameMenu s) = tweens s"
  "rng (showGameMenu s) = rng s" "rix (showGameMenu s) = rix s"
  by (simp_all add: showGameMenu_def split: option.splits)

lemma startRandomTextSpawning_fields [simp]:
  "hasStarted (startRandomTextSpawning s) = hasStarted s"
  "currentDialog (startRandomTextSpawning s) = currentDialog s"
  "currentAnimation (startRandomTextSpawning s) = currentAnimation s"
  "escapeHandler (startRandomTextSpawning s) = escapeHandler s"
  "clickSound (startRandomTextSpawning s) = clickSound s"
  "distortedVoices (startRandomTextSpawning s) = distortedVoices s"
  "lastVoiceTime (startRandomTextSpawning s) = lastVoiceTime s"
  "camera_fov (startRandomTextSpawning s) = camera_fov s"
  "camera_aspect (startRandomTextSpawning s) = camera_aspect s"
  "camera_position (startRandomTextSpawning s) = camera_position s"
  "camera_projection (startRandomTextSpawning s) = camera_projection s"
  "renderer_size (startRandomTextSpawning s) = renderer_size s"
  "controls_target (startRandomTextSpawning s) = controls_target s"
  "escapeOrphans (startRandomTextSpawning s) = escapeOrphans s"
  "menuHandlers (startRandomTextSpawning s) = menuHandlers s"
  "now (startRandomTextSpawning s) = now s"
  "innerWidth (startRandomTextSpawning s) = innerWidth s"
  "innerHeight (startRandomTextSpawning s) = innerHeight s"
  "doc (startRandomTextSpawning s) = doc s"
  "menuItems (startRandomTextSpawning s) = menuItems s"
  "labels (startRandomTextSpawning s) = labels s"
  "nextLabel (startRandomTextSpawning s) = nextLabel s"
  "plays (startRandomTextSpawning s) = plays s"
  "nextPlay (startRandomTextSpawning s) = nextPlay s"
  "media (startRandomTextSpawning s) = media s"
  "tweens (startRandomTextSpawning s) = tweens s" "rng (startRandomTextSpawning s) = rng s"
  "rix (startRandomTextSpawning s) = rix s"
  by (simp_all add: startRandomTextSpawning_def split: option.splits)

lemma spawnText_fields [simp]:
  "hasStarted (spawnText s) = hasStarted s" "currentDialog (spawnText s) = currentDialog s"
  "currentAnimation (spawnText s) = currentAnimation s"
  "escapeHandler (spawnText s) = escapeHandler s" "clickSound (spawnText s) = clickSound s"
  "distortedVoices (spawnText s) = distortedVoices s"
  "lastVoiceTime (spawnText s) = lastVoiceTime s" "camera_fov (spawnText s) = camera_fov s"
  "camera_aspect (spawnText s) = camera_aspect s"
  "camera_position (spawnText s) = camera_position s"
  "camera_projection (spawnText s) = camera_projection s"
  "renderer_size (spawnText s) = renderer_size s"
  "controls_target (spawnText s) = controls_target s"
  "escapeOrphans (spawnText s) = escapeOrphans s"
  "menuHandlers (spawnText s) = menuHandlers s" "now (spawnText s) = now s"
  "innerWidth (spawnText s) = innerWidth s" "innerHeight (spawnText s) = innerHeight s"
  "doc (spawnText s) = doc s" "menuItems (spawnText s) = menuItems s"
  "plays (spawnText s) = plays s" "nextPlay (spawnText s) = nextPlay s"
  "media (spawnText s) = media s" "tweens (spawnText s) = tweens s"
  "rng (spawnText s) = rng s"
  by (simp_all add: spawnText_def Math_random_def Let_def split: option.splits)

lemma spawnTick_fields [simp]:
  "hasStarted (spawnTick s) = hasStarted s" "currentDialog (spawnTick s) = currentDialog s"
  "currentAnimation (spawnTick s) = currentAnimation s"
  "escapeHandler (spawnTick s) = escapeHandler s" "clickSound (spawnTick s) = clickSound s"
  "distortedVoices (spawnTick s) = distortedVoices s"
  "lastVoiceTime (spawnTick s) = lastVoiceTime s" "camera_fov (spawnTick s) = camera_fov s"
  "camera_aspect (spawnTick s) = camera_aspect s"
  "camera_position (spawnTick s) = camera_position s"
  "camera_projection (spawnTick s) = camera_projection s"
  "renderer_size (spawnTick s) = renderer_size s"
  "controls_target (spawnTick s) = controls_target s"
  "escapeOrphans (spawnTick s) = escapeOrphans s"
  "menuHandlers (spawnTick s) = menuHandlers s" "now (spawnTick s) = now s"
  "innerWidth (spawnTick s) = innerWidth s" "innerHeight (spawnTick s) = innerHeight s"
  "doc (spawnTick s) = doc s" "menuItems (spawnTick s) = menuItems s"
  "plays (spawnTick s) = plays s" "nextPlay (spawnTick s) = nextPlay s"
  "media (spawnTick s) = media s" "tweens (spawnTick s) = tweens s"
  "rng (spawnTick s) = rng s"
  by (simp_all add: spawnTick_def Math_random_def Let_def)

lemma showDialog_fields [simp]:
  "hasStarted (showDialog d a s) = hasStarted s"
  "clickSound (showDialog d a s) = clickSound s"
  "distortedVoices (showDialog d a s) = distortedVoices s"
  "lastVoiceTime (showDialog d a s) = lastVoiceTime s"
  "camera_fov (showDialog d a s) = camera_fov s"
  "camera_aspect (showDialog d a s) = camera_aspect s"
  "camera_position (showDialog d a s) = camera_position s"
  "camera_projection (showDialog d a s) = camera_projection s"
  "renderer_size (showDialog d a s) = renderer_size s"
  "controls_target (showDialog d a s) = controls_target s"
  "menuHandlers (showDialog d a s) = menuHandlers s" "now (showDialog d a s) = now s"
  "innerWidth (showDialog d a s) = innerWidth s"
  "innerHeight (showDialog d a s) = innerHeight s"
  "menuItems (showDialog d a s) = menuItems s" "labels (showDialog d a s) = labels s"
  "nextLabel (showDialog d a s) = nextLabel s" "plays (showDialog d a s) = plays s"
  "nextPlay (showDialog d a s) = nextPlay s" "media (showDialog d a s) = media s"
  "rng (showDialog d a s) = rng s" "rix (showDialog d a s) = rix s"
  by (simp_all add: showDialog_def Let_def)

lemma hideDialog_fields [simp]:
  "hasStarted (hideDialog d s) = hasStarted s"
  "currentDialog (hideDialog d s) = currentDialog s"
  "currentAnimation (hideDialog d s) = currentAnimation s"
  "clickSound (hideDialog d s) = clickSound s"
  "distortedVoices (hideDialog d s) = distortedVoices s"
  "lastVoiceTime (hideDialog d s) = lastVoiceTime s"
  "camera_fov (hideDialog d s) = camera_fov s"
  "camera_aspect (hideDialog d s) = camera_aspect s"
  "camera_position (hideDialog d s) = camera_position s"
  "camera_projection (hideDialog d s) = camera_projection s"
  "renderer_size (hideDialog d s) = renderer_size s"
  "controls_target (hideDialog d s) = controls_target s"
  "escapeOrphans (hideDialog d s) = escapeOrphans s"
  "menuHandlers (hideDialog d s) = menuHandlers s" "now (hideDialog d s) = now s"
  "innerWidth (hideDialog d s) = innerWidth s"
  "innerHeight (hideDialog d s) = innerHeight s" "menuItems (hideDialog d s) = menuItems s"
  "labels (hideDialog d s) = labels s" "nextLabel (hideDialog d s) = nextLabel s"
  "plays (hideDialog d s) = plays s" "nextPlay (hideDialog d s) = nextPlay s"
  "media (hideDialog d s) = media s" "tweens (hideDialog d s) = tweens s"
  "rng (hideDialog d s) = rng s" "rix (hideDialog d s) = rix s"
  by (simp_all add: hideDialog_def Let_def split: option.splits)

lemma escapeKey_fields [simp]:
  "hasStarted (escapeKey k s) = hasStarted s"
  "currentDialog (escapeKey k s) = currentDialog s"
  "currentAnimation (escapeKey k s) = currentAnimation s"
  "clickSound (escapeKey k s) = clickSound s"
  "distortedVoices (escapeKey k s) = distortedVoices s"
  "lastVoiceTime (escapeKey k s) = lastVoiceTime s"
  "camera_fov (escapeKey k s) = camera_fov s"
  "camera_aspect (escapeKey k s) = camera_aspect s"
  "camera_position (escapeKey k s) = camera_position s"
  "camera_projection (escapeKey k s) = camera_projection s"
  "renderer_size (escapeKey k s) = renderer_size s"
  "controls_target (escapeKey k s) = controls_target s"
  "escapeOrphans (escapeKey k s) = escapeOrphans s"
  "menuHandlers (escapeKey k s) = menuHandlers s" "now (escapeKey k s) = now s"
  "innerWidth (escapeKey k s) = innerWidth s" "innerHeight (escapeKey k s) = innerHeight s"
  "menuItems (escapeKey k s) = menuItems s" "labels (escapeKey k s) = labels s"
  "nextLabel (escapeKey k s) = nextLabel s" "plays (escapeKey k s) = plays s"
  "nextPlay (escapeKey k s) = nextPlay s" "tweens (escapeKey k s) = tweens s"
  "rng (escapeKey k s) = rng s" "rix (escapeKey k s) = rix s"
  by (simp_all add: escapeKey_def Let_def split: option.splits)

lemma playRandomVoice_fields [simp]:
  "hasStarted (playRandomVoice og s) = hasStarted s"
  "currentDialog (playRandomVoice og s) = currentDialog s"
  "currentAnimation (playRandomVoice og s) = currentAnimation s"
  "escapeHandler (playRandomVoice og s) = escapeHandler s"
  "clickSound (playRandomVoice og s) = clickSound s"
  "distortedVoices (playRandomVoice og s) = distortedVoices s"
  "lastVoiceTime (playRandomVoice og s) = lastVoiceTime s"
  "camera_fov (playRandomVoice og s) = camera_fov s"
  "camera_aspect (playRandomVoice og s) = camera_aspect s"
  "camera_position (playRandomVoice og s) = camera_position s"
  "camera_projection (playRandomVoice og s) = camera_projection s"
  "renderer_size (playRandomVoice og s) = renderer_size s"
  "controls_target (playRandomVoice og s) = controls_target s"
  "escapeOrphans (playRandomVoice og s) = escapeOrphans s"
  "menuHandlers (playRandomVoice og s) = menuHandlers s"
  "now (playRandomVoice og s) = now s" "innerWidth (playRandomVoice og s) = innerWidth s"
  "innerHeight (playRandomVoice og s) = innerHeight s" "doc (playRandomVoice og s) = doc s"
  "menuItems (playRandomVoice og s) = menuItems s"
  "labels (playRandomVoice og s) = labels s"
  "nextLabel (playRandomVoice og s) = nextLabel s"
  "pending (playRandomVoice og s) = pending s" "tweens (playRandomVoice og s) = tweens s"
  "rng (playRandomVoice og s) = rng s"
  by (simp_all add: playRandomVoice_def Math_random_def Let_def split: option.splits)

lemma maybePlayRandomVoice_fields [simp]:
  "hasStarted (maybePlayRandomVoice s) = hasStarted s"
  "currentDialog (maybePlayRandomVoice s) = currentDialog s"
  "currentAnimation (maybePlayRandomVoice s) = currentAnimation s"
  "escapeHandler (maybePlayRandomVoice s) = escapeHandler s"
  "clickSound (maybePlayRandomVoice s) = clickSound s"
  "distortedVoices (maybePlayRandomVoice s) = distortedVoices s"
  "lastVoiceTime (maybePlayRandomVoice s) = lastVoiceTime s"
  "camera_fov (maybePlayRandomVoice s) = camera_fov s"
  "camera_aspect (maybePlayRandomVoice s) = camera_aspect s"
  "camera_position (maybePlayRandomVoice s) = camera_position s"
  "camera_projection (maybePlayRandomVoice s) = camera_projection s"
  "renderer_size (maybePlayRandomVoice s) = renderer_size s"
  "controls_target (maybePlayRandomVoice s) = controls_target s"
  "escapeOrphans (maybePlayRandomVoice s) = escapeOrphans s"
  "menuHandlers (maybePlayRandomVoice s) = menuHandlers s"
  "now (maybePlayRandomVoice s) = now s"
  "innerWidth (maybePlayRandomVoice s) = innerWidth s"
  "innerHeight (maybePlayRandomVoice s) = innerHeight s"
  "doc (maybePlayRandomVoice s) = doc s" "menuItems (maybePlayRandomVoice s) = menuItems s"
  "labels (maybePlayRandomVoice s) = labels s"
  "nextLabel (maybePlayRandomVoice s) = nextLabel s"
  "pending (maybePlayRandomVoice s) = pending s"
  "tweens (maybePlayRandomVoice s) = tweens s" "rng (maybePlayRandomVoice s) = rng s"
  by (simp_all add: maybePlayRandomVoice_def Math_random_def Let_def)

lemma play_then_fields [simp]:
  "hasStarted (play_then p s) = hasStarted s"
  "currentDialog (play_then p s) = currentDialog s"
  "currentAnimation (play_then p s) = currentAnimation s"
  "escapeHandler (play_then p s) = escapeHandler s"
  "clickSound (play_then p s) = clickSound s"
  "distortedVoices (play_then p s) = distortedVoices s"
  "camera_fov (play_then p s) = camera_fov s"
  "camera_aspect (play_then p s) = camera_aspect s"
  "camera_position (play_then p s) = camera_position s"
  "camera_projection (play_then p s) = camera_projection s"
  "renderer_size (play_then p s) = renderer_size s"
  "controls_target (play_then p s) = controls_target s"
  "escapeOrphans (play_then p s) = escapeOrphans s"
  "menuHandlers (play_then p s) = menuHandlers s" "now (play_then p s) = now s"
  "innerWidth (play_then p s) = innerWidth s" "innerHeight (play_then p s) = innerHeight s"
  "doc (play_then p s) = doc s" "menuItems (play_then p s) = menuItems s"
  "labels (play_then p s) = labels s" "nextLabel (play_then p s) = nextLabel s"
  "nextPlay (play_then p s) = nextPlay s" "tweens (play_then p s) = tweens s"
  "rng (play_then p s) = rng s" "rix (play_then p s) = rix s"
  by (simp_all add: play_then_def split: option.splits)

lemma play_catch_fields [simp]:
  "hasStarted (play_catch p s) = hasStarted s"
  "currentDialog (play_catch p s) = currentDialog s"
  "currentAnimation (play_catch p s) = currentAnimation s"
  "escapeHandler (play_catch p s) = escapeHandler s"
  "clickSound (play_catch p s) = clickSound s"
  "distortedVoices (play_catch p s) = distortedVoices s"
  "lastVoiceTime (play_catch p s) = lastVoiceTime s"
  "camera_fov (play_catch p s) = camera_fov s"
  "camera_aspect (play_catch p s) = camera_aspect s"
  "camera_position (play_catch p s) = camera_position s"
  "camera_projection (play_catch p s) = camera_projection s"
  "renderer_size (play_catch p s) = renderer_size s"
  "controls_target (play_catch p s) = controls_target s"
  "escapeOrphans (play_catch p s) = escapeOrphans s"
  "menuHandlers (play_catch p s) = menuHandlers s" "now (play_catch p s) = now s"
  "innerWidth (play_catch p s) = innerWidth s"
  "innerHeight (play_catch p s) = innerHeight s" "doc (play_catch p s) = doc s"
  "menuItems (play_catch p s) = menuItems s" "labels (play_catch p s) = labels s"
  "nextLabel (play_catch p s) = nextLabel s" "pending (play_catch p s) = pending s"
  "nextPlay (play_catch p s) = nextPlay s" "tweens (play_catch p s) = tweens s"
  "rng (play_catch p s) = rng s" "rix (play_catch p s) = rix s"
  by (simp_all add: play_catch_def split: option.splits)

lemma idle_fields [simp]:
  "hasStarted (idle d s) = hasStarted s" "currentDialog (idle d s) = currentDialog s"
  "currentAnimation (idle d s) = currentAnimation s"
  "escapeHandler (idle d s) = escapeHandler s" "clickSound (idle d s) = clickSound s"
  "distortedVoices (idle d s) = distortedVoices s"
  "lastVoiceTime (idle d s) = lastVoiceTime s" "camera_fov (idle d s) = camera_fov s"
  "camera_aspect (idle d s) = camera_aspect s"
  "camera_position (idle d s) = camera_position s"
  "camera_projection (idle d s) = camera_projection s"
  "renderer_size (idle d s) = renderer_size s"
  "controls_target (idle d s) = controls_target s"
  "escapeOrphans (idle d s) = escapeOrphans s" "menuHandlers (idle d s) = menuHandlers s"
  "innerWidth (idle d s) = innerWidth s" "innerHeight (idle d s) = innerHeight s"
  "doc (idle d s) = doc s" "menuItems (idle d s) = menuItems s"
  "labels (idle d s) = labels s" "nextLabel (idle d s) = nextLabel s"
  "pending (idle d s) = pending s" "plays (idle d s) = plays s"
  "nextPlay (idle d s) = nextPlay s" "media (idle d s) = media s"
  "tweens (idle d s) = tweens s" "rng (idle d s) = rng s" "rix (idle d s) = rix s"
  by (simp_all add: idle_def split: option.splits)

lemma moveEarthTo_gsap:
  obtains dest where "moveEarthTo d s = gsap_to ControlsTarget 2500 dest False s"
proof -
  have "\<exists>dest. moveEarthTo d s = gsap_to ControlsTarget 2500 dest False s"
    unfolding moveEarthTo_def Let_def case_prod_beta by (rule exI) (rule refl)
  then show ?thesis using that by blast
qed

subsection \<open>Timers are never overdue\<close>

lemma ahead_simps [simp]:
  "ahead n []"
  "ahead n (t # ts) = (n \<le> due t \<and> (\<forall>p. period t = Some p \<longrightarrow> 0 \<le> p) \<and> ahead n ts)"
  "ahead n (ts @ us) = (ahead n ts \<and> ahead n us)"
  by (auto simp: ahead_def)

lemma moveEarthTo_pending:
  obtains dest where
    "pending (moveEarthTo d s) =
       pending s @ [Task (now s + 2500) None (TweenComplete ControlsTarget dest False)]"
    "tweens (moveEarthTo d s) = tweens s @ [(now s, ControlsTarget, 2500, dest)]"
  by (rule moveEarthTo_gsap[of d s]) simp

lemma timers_ahead_frame:
  assumes "now s' = now s" and "pending s' = pending s"
  shows "timers_ahead s' = timers_ahead s"
  by (simp add: timers_ahead_def assms)

lemma timers_ahead_primitive [simp]:
  "timers_ahead (update_element i f s) = timers_ahead s"
  "timers_ahead (playClickSound s) = timers_ahead s"
  "timers_ahead (addEscapeListener s) = timers_ahead s"
  "timers_ahead (removeEscapeListener s) = timers_ahead s"
  "timers_ahead (setupMenuInteractions s) = timers_ahead s"
  "timers_ahead (onWindowResize s) = timers_ahead s"
  "timers_ahead (playRandomVoice og s) = timers_ahead s"
  "timers_ahead (maybePlayRandomVoice s) = timers_ahead s"
  "timers_ahead (play_catch p s) = timers_ahead s"
  "timers_ahead (setTimeout cb ms s) = (timers_ahead s \<and> 0 \<le> ms)"
  "timers_ahead (setInterval cb ms s) = (timers_ahead s \<and> 0 \<le> ms)"
  "timers_ahead (gsap_to tgt ms dest oc s) = (timers_ahead s \<and> 0 \<le> ms)"
  by (simp_all add: timers_ahead_def)

lemma timers_ahead_record [simp]:
  "timers_ahead (s\<lparr>media := m\<rparr>) = timers_ahead s"
  "timers_ahead (s\<lparr>labels := l\<rparr>) = timers_ahead s"
  "timers_ahead (s\<lparr>hasStarted := b\<rparr>) = timers_ahead s"
  "timers_ahead (s\<lparr>camera_position := v\<rparr>) = timers_ahead s"
  "timers_ahead (s\<lparr>controls_target := v\<rparr>) = timers_ahead s"
  "timers_ahead (s\<lparr>currentDialog := cd, currentAnimation := ca\<rparr>) = timers_ahead s"
  "timers_ahead (s\<lparr>innerWidth := w, innerHeight := h\<rparr>) = timers_ahead s"
  by (simp_all add: timers_ahead_def)

lemma timers_ahead_moves [simp]:
  "timers_ahead (moveEarthTo d s) = timers_ahead s"
  "timers_ahead (moveEarthToLeft s) = timers_ahead s"
  "timers_ahead (zoomToPlanet s) = timers_ahead s"
proof -
  show "timers_ahead (moveEarthTo d s) = timers_ahead s"
    by (rule moveEarthTo_gsap[of d s]) simp
qed (simp_all add: moveEarthToLeft_def zoomToPlanet_def Let_def)

lemma timers_ahead_handlers [simp]:
  "timers_ahead (startGame s) = timers_ahead s"
  "timers_ahead (showGameMenu s) = timers_ahead s"
  "timers_ahead (showDialog d a s) = timers_ahead s"
  "timers_ahead (hideDialog d s) = timers_ahead s"
  by (simp_all add: startGame_def showGameMenu_def showDialog_def hideDialog_def Let_def
      split: option.splits)

lemma timers_ahead_ambient [simp]:
  "timers_ahead (startRandomTextSpawning s) = timers_ahead s"
  "timers_ahead (spawnTick s) = timers_ahead s"
  "timers_ahead (play_then p s) = timers_ahead s"
  by (simp_all add: startRandomTextSpawning_def spawnTick_def spawnText_def Math_random_def
      play_then_def Let_def timers_ahead_def split: option.splits)

lemma timers_ahead_escapeKey [simp]: "timers_ahead (escapeKey k s) = timers_ahead s"
  by (simp add: escapeKey_def Let_def split: option.splits)

lemma timers_ahead_fire: "timers_ahead (fire cb s) = timers_ahead s"
proof (cases cb)
  case (TweenComplete tgt dest oc)
  then show ?thesis by (cases tgt) (simp_all add: Let_def)
qed (simp_all split: option.splits)

lemma funpow_fixed:
  assumes "\<And>x. P (f x) = P x"
  shows "P ((f ^^ n) x) = P x"
  by (induction n) (simp_all add: assms)

lemma timers_ahead_run_next: "timers_ahead s \<Longrightarrow> timers_ahead (run_next s)"
proof (cases "next_task (pending s)")
  case None
  then show "timers_ahead s \<Longrightarrow> ?thesis" by (simp add: run_next_def)
next
  case (Some tr)
  assume a: "timers_ahead s"
  obtain t r where tr: "tr = (t, r)" by (cases tr)
  have nt: "next_task (pending s) = Some (t, r)" using Some tr by simp
  from next_task_split[OF nt]
  obtain xs ys where sp: "pending s = xs @ t # ys" "r = xs @ ys" by blast
  have le: "\<forall>u\<in>set (pending s). due t \<le> due u" by (rule next_task_least[OF nt])
  have t: "now s \<le> due t" "\<forall>p. period t = Some p \<longrightarrow> 0 \<le> p"
    using a sp(1) by (simp_all add: timers_ahead_def)
  have "ahead (due t) (xs @ ys)"
    using a le sp(1) by (auto simp: timers_ahead_def ahead_def)
  then have "timers_ahead (s\<lparr>now := max (now s) (due t),
      pending := r @ (case period t of None \<Rightarrow> []
                      | Some p \<Rightarrow> [Task (due t + p) (Some p) (callback t)])\<rparr>)"
    using t sp(2) by (auto simp: timers_ahead_def max_def split: option.splits)
  then show ?thesis
    using nt by (simp add: run_next_def timers_ahead_fire)
qed

lemma timers_ahead_idle: "timers_ahead s \<Longrightarrow> timers_ahead (idle d s)"
proof (cases "next_task (pending s)")
  case None
  then show "timers_ahead s \<Longrightarrow> ?thesis"
    by (simp add: idle_def timers_ahead_def next_task_None)
next
  case (Some tr)
  assume a: "timers_ahead s"
  obtain t r where tr: "tr = (t, r)" by (cases tr)
  have nt: "next_task (pending s) = Some (t, r)" using Some tr by simp
  have le: "\<forall>u\<in>set (pending s). due t \<le> due u" by (rule next_task_least[OF nt])
  show ?thesis
    using a le nt by (auto simp: idle_def timers_ahead_def ahead_def)
qed

lemma timers_ahead_step: "timers_ahead s \<Longrightarrow> timers_ahead (step s e)"
proof (cases e)
  case Next
  then show "timers_ahead s \<Longrightarrow> ?thesis" by (simp add: timers_ahead_run_next)
next
  case (Idle d)
  then show "timers_ahead s \<Longrightarrow> ?thesis" by (simp add: timers_ahead_idle)
next
  case (KeyDown key code)
  have "timers_ahead ((escapeKey key ^^ n) x) = timers_ahead x" for n x
    by (rule funpow_fixed) simp
  with KeyDown show "timers_ahead s \<Longrightarrow> ?thesis"
    by (simp add: keydown_def Let_def)
next
  case (ClickMenu option)
  have "timers_ahead (((\<lambda>s. showDialog d a (playClickSound s)) ^^ n) x) = timers_ahead x" for d a n x
    by (rule funpow_fixed) simp
  with ClickMenu show "timers_ahead s \<Longrightarrow> ?thesis"
    by (simp add: menuClick_def split: option.splits)
next
  case (ClickClose a)
  have "timers_ahead (((\<lambda>s. hideDialog d (playClickSound s)) ^^ n) x) = timers_ahead x" for d n x
    by (rule funpow_fixed) simp
  with ClickClose show "timers_ahead s \<Longrightarrow> ?thesis"
    by (simp add: closeClick_def)
next
  case (ClickOverlay d exact)
  have "timers_ahead (((hideDialog d') ^^ n) x) = timers_ahead x" for d' n x
    by (rule funpow_fixed) simp
  with ClickOverlay show "timers_ahead s \<Longrightarrow> ?thesis"
    by (simp add: overlayClick_def)
qed simp_all

subsection \<open>Evaluation of runs of the example page\<close>

text \<open>
  Runs of the example page are evaluated by rewriting with the definitions of the
  handlers, the value of a \<open>let\<close> before its body.
\<close>

lemma let_weak_cong: "a = b \<Longrightarrow> Let a t = Let b t"
  by simp

lemmas rec_eval = run_def run_next_def idle_def keydown_def menuClick_def closeClick_def
  overlayClick_def escapeKey_def maybePlayRandomVoice_def playRandomVoice_def Math_random_def
  array_get_def play_catch_def play_then_def playClickSound_def startGame_def
  zoomToPlanet_def moveEarthTo_def moveEarthToLeft_def onWindowResize_def showGameMenu_def
  startRandomTextSpawning_def spawnText_def spawnTick_def setupMenuInteractions_def
  addEscapeListener_def removeEscapeListener_def showDialog_def hideDialog_def gsap_to_def
  update_element_def setTimeout_def setInterval_def menuOptions_def dialogs_def lower_keys
  Let_def classList_add_def classList_remove_def plain_def concealed_def

lemma sized_state_record:
  "sized_state w h =
     \<lparr>hasStarted = False, currentDialog = None, currentAnimation = None,
      escapeHandler = False, clickSound = True,
      distortedVoices = [''distortedVoice1'', ''distortedVoice2''], lastVoiceTime = 0,
      camera_fov = 45, camera_aspect = w / h, camera_position = (0, 0, 1000),
      camera_projection = (45, w / h), renderer_size = (w, h), controls_target = (0, 0, 0),
      escapeOrphans = 0, menuHandlers = 0, now = 1700000000000, innerWidth = w,
      innerHeight = h,
      doc = [''sponsorsDialog'' \<mapsto> concealed, ''contactDialog'' \<mapsto> concealed,
             ''problemDialog'' \<mapsto> concealed, ''aboutDialog'' \<mapsto> concealed,
             ''randomTextContainer'' \<mapsto> plain, ''gameMenu'' \<mapsto> concealed,
             ''titleContainer'' \<mapsto> plain, ''startText'' \<mapsto> plain,
             ''canvas-container'' \<mapsto> plain, ''.loading-progress'' \<mapsto> plain,
             ''loading'' \<mapsto> plain, ''clickSound'' \<mapsto> plain\<lparr>volume := 3 / 5\<rparr>,
             ''distortedVoice1'' \<mapsto> plain\<lparr>volume := 2 / 5\<rparr>,
             ''distortedVoice2'' \<mapsto> plain\<lparr>volume := 2 / 5\<rparr>, ''socialMedia'' \<mapsto> plain],
      menuItems = [''1'', ''2'', ''3'', ''4'', ''5''], labels = [], nextLabel = 0,
      pending = [Task 1700000025000 (Some 25000) VoiceInterval,
                 Task 1700000000100 None SocialVisible],
      plays = [], nextPlay = 0, media = [], tweens = [], rng = (\<lambda>n. 1 / 10),
      rix = 45000\<rparr>"
  by (simp add: sized_state_def page_defs cong: let_weak_cong)

lemma page_state_sized: "page_state = sized_state 1920 1080"
  by (simp add: page_state_def sized_state_def page_def)

lemmas page_eval = page_state_sized sized_state_record rec_eval

lemma enter_is_no_voice_key: "escapeKey ''Enter'' = id" "toLowerCase ''Enter'' \<noteq> ''v''"
  by (auto simp: escapeKey_def lower_keys)

subsection \<open>The voice scheduler\<close>

lemma starts_append: "starts (xs @ ys) = starts xs @ starts ys"
  by (induction xs rule: starts.induct) auto

lemma cooled_cong: "set seen = set seen' \<Longrightarrow> cooled seen ms = cooled seen' ms"
  by (induction seen ms arbitrary: seen' rule: cooled.induct) auto

lemma cooled_append:
  "cooled seen (xs @ ys) = (cooled seen xs \<and> cooled (starts xs @ seen) ys)"
proof (induction seen xs rule: cooled.induct)
  case (2 seen p i t ms)
  have "cooled (starts ms @ t # seen) ys = cooled (t # starts ms @ seen) ys"
    by (rule cooled_cong) auto
  with 2 show ?case by simp
qed auto

lemma voice_inv_frame:
  assumes "voice_inv s" and "media s' = media s" and "lastVoiceTime s' = lastVoiceTime s"
    and "now s \<le> now s'"
  shows "voice_inv s'"
  using assms by (auto simp: voice_inv_def)

lemma voice_inv_playClickSound: "voice_inv s \<Longrightarrow> voice_inv (playClickSound s)"
  by (simp add: voice_inv_def cooled_append starts_append)

lemma voice_inv_manual: "voice_inv s \<Longrightarrow> voice_inv (playRandomVoice Manual s)"
  by (simp add: voice_inv_def playRandomVoice_def Math_random_def cooled_append starts_append
      Let_def split: option.splits)

lemma voice_inv_maybe: "voice_inv s \<Longrightarrow> voice_inv (maybePlayRandomVoice s)"
  by (auto simp add: voice_inv_def maybePlayRandomVoice_def playRandomVoice_def Math_random_def
      cooled_append starts_append Let_def split: option.splits)

lemma voice_inv_then: "voice_inv s \<Longrightarrow> voice_inv (play_then p s)"
  by (auto simp add: voice_inv_def play_then_def setTimeout_def cooled_append starts_append
      split: option.splits)

lemma voice_inv_catch: "voice_inv s \<Longrightarrow> voice_inv (play_catch p s)"
  by (auto simp add: voice_inv_def play_catch_def cooled_append starts_append
      split: option.splits)

lemma voice_inv_startGame: "voice_inv s \<Longrightarrow> voice_inv (startGame s)"
  by (simp add: voice_inv_def startGame_def Let_def cooled_append starts_append)

lemma voice_inv_showDialog: "voice_inv s \<Longrightarrow> voice_inv (showDialog d a s)"
  by (simp add: voice_inv_def)

lemma voice_inv_hideDialog: "voice_inv s \<Longrightarrow> voice_inv (hideDialog d s)"
  by (simp add: voice_inv_def)

lemma voice_inv_escapeKey: "voice_inv s \<Longrightarrow> voice_inv (escapeKey k s)"
  by (auto simp add: escapeKey_def Let_def intro!: voice_inv_hideDialog voice_inv_playClickSound
      split: option.splits)

lemma voice_inv_fire: "voice_inv s \<Longrightarrow> voice_inv (fire cb s)"
proof (cases cb)
  case VoiceInterval
  then show "voice_inv s \<Longrightarrow> ?thesis" by (simp add: voice_inv_maybe)
next
  case (StopVoice i)
  then show "voice_inv s \<Longrightarrow> ?thesis"
    by (simp add: voice_inv_def cooled_append starts_append)
next
  case (TweenComplete tgt dest oc)
  then show "voice_inv s \<Longrightarrow> ?thesis"
    by (cases tgt) (simp_all add: voice_inv_def Let_def)
qed (simp_all add: voice_inv_def split: option.splits)

lemma voice_inv_step: "voice_inv s \<Longrightarrow> voice_inv (step s e)"
proof (cases e)
  case Next
  assume v: "voice_inv s"
  show ?thesis
  proof (cases "next_task (pending s)")
    case None
    with v Next show ?thesis by (simp add: run_next_def)
  next
    case (Some tr)
    obtain t r where "tr = (t, r)" by (cases tr)
    moreover have "voice_inv (s\<lparr>now := max (now s) (due t), pending := q\<rparr>)" for q
      using v by (auto simp: voice_inv_def)
    ultimately show ?thesis
      using Next Some by (simp add: run_next_def voice_inv_fire)
  qed
next
  case (Idle d)
  then show "voice_inv s \<Longrightarrow> ?thesis"
    by (auto simp: idle_def voice_inv_def split: option.splits)
next
  case (KeyDown key code)
  assume v: "voice_inv s"
  have 1: "voice_inv (if toLowerCase key = ''v'' then playRandomVoice Manual s else s)"
    using v by (simp add: voice_inv_manual)
  have 2: "voice_inv x \<Longrightarrow> voice_inv (if code = ''Enter'' \<and> \<not> hasStarted x then startGame x else x)" for x
    by (simp add: voice_inv_startGame)
  have 3: "voice_inv x \<Longrightarrow> voice_inv ((escapeKey key ^^ n) x)" for x n
    by (rule funpow_invariant) (auto intro: voice_inv_escapeKey)
  show ?thesis
    using KeyDown 2[OF 1] 3 voice_inv_escapeKey
    by (simp add: keydown_def Let_def)
next
  case ClickStart
  then show "voice_inv s \<Longrightarrow> ?thesis" by (simp add: voice_inv_startGame)
next
  case (ClickMenu option)
  assume v: "voice_inv s"
  have "voice_inv (((\<lambda>s. showDialog d a (playClickSound s)) ^^ n) s)" for d a n
    by (rule funpow_invariant) (auto intro: v voice_inv_showDialog voice_inv_playClickSound)
  with v ClickMenu show ?thesis
    by (auto simp: menuClick_def split: option.splits)
next
  case (ClickClose a)
  assume v: "voice_inv s"
  have "voice_inv (((\<lambda>s. hideDialog d (playClickSound s)) ^^ n) s)" for d n
    by (rule funpow_invariant) (auto intro: v voice_inv_hideDialog voice_inv_playClickSound)
  with v ClickClose show ?thesis
    by (auto simp: closeClick_def split: option.splits)
next
  case (ClickOverlay d exact)
  assume v: "voice_inv s"
  have "voice_inv (((hideDialog d) ^^ n) s)" for d n
    by (rule funpow_invariant) (auto intro: v voice_inv_hideDialog)
  with v ClickOverlay show ?thesis
    by (auto simp: overlayClick_def split: option.splits)
next
  case ClickSocial
  then show "voice_inv s \<Longrightarrow> ?thesis" by (simp add: voice_inv_playClickSound)
next
  case (Resize w h)
  then show "voice_inv s \<Longrightarrow> ?thesis" by (simp add: voice_inv_def)
next
  case (PlayResolved p)
  then show "voice_inv s \<Longrightarrow> ?thesis" by (simp add: voice_inv_then)
next
  case (PlayRejected p)
  then show "voice_inv s \<Longrightarrow> ?thesis" by (simp add: voice_inv_catch)
next
  case (LoadProgress a b)
  then show "voice_inv s \<Longrightarrow> ?thesis" by (simp add: voice_inv_def)
next
  case LoadComplete
  then show "voice_inv s \<Longrightarrow> ?thesis" by (simp add: voice_inv_def)
qed

lemma init_voice:
  assumes "init c = Inr s"
  shows "media s = [] \<and> lastVoiceTime s = 0 \<and> now s = cfg_now c"
  using assms
  by (auto simp: init_def createRenderer_def createCamera_def setupAudio_def constructor_def
      createControls_def createStarfield_def setupStartExperience_def showSocialMedia_def
      startRandomVoiceSystem_def Let_def split: option.splits sum.splits)

subsection \<open>The start action\<close>

lemma start_inv_zview: "zview s' = zview s \<Longrightarrow> start_inv s \<Longrightarrow> start_inv s'"
  by (simp add: zview_def start_inv_def)

lemmas zview_defs = zview_def zoom_started_def zoom_pending_def

lemma zview_simple [simp]:
  "zview (playClickSound s) = zview s"
  "zview (playRandomVoice og s) = zview s"
  "zview (maybePlayRandomVoice s) = zview s"
  "zview (play_catch p s) = zview s"
  "zview (onWindowResize s) = zview s"
  "zview (update_element i f s) = zview s"
  "zview (addEscapeListener s) = zview s"
  "zview (removeEscapeListener s) = zview s"
  "zview (setupMenuInteractions s) = zview s"
  "zview (idle d s) = zview s"
  by (simp_all add: zview_defs)

lemma zview_setTimeout [simp]:
  "cb \<noteq> ZoomToPlanet \<Longrightarrow> zview (setTimeout cb ms s) = zview s"
  "cb \<noteq> ZoomToPlanet \<Longrightarrow> zview (setInterval cb ms s) = zview s"
  by (simp_all add: zview_defs)

lemma zview_controls_tween [simp]:
  "zview (gsap_to ControlsTarget ms dest oc s) = zview s"
  by (simp add: zview_defs)

lemma zview_moveEarthTo [simp]: "zview (moveEarthTo d s) = zview s"
  by (rule moveEarthTo_gsap[of d s]) simp

lemma zview_moveEarthToLeft [simp]: "zview (moveEarthToLeft s) = zview s"
  by (simp add: moveEarthToLeft_def Let_def)

lemma zview_then [simp]: "zview (play_then p s) = zview s"
  by (simp add: play_then_def zview_defs split: option.splits)

lemma zview_showDialog [simp]: "zview (showDialog d a s) = zview s"
  by (simp add: showDialog_def Let_def) (simp add: zview_defs)

lemma zview_hideDialog [simp]: "zview (hideDialog d s) = zview s"
  by (simp add: hideDialog_def Let_def split: option.splits)

lemma zview_escapeKey [simp]: "zview (escapeKey k s) = zview s"
  by (simp add: escapeKey_def Let_def split: option.splits)

lemma zview_spawnTick [simp]: "zview (spawnTick s) = zview s"
  by (simp add: zview_defs spawnTick_def spawnText_def Math_random_def Let_def
      split: option.splits)

lemma zview_showGameMenu [simp]: "zview (showGameMenu s) = zview s"
  by (simp add: showGameMenu_def split: option.splits)

lemma zview_startRandomTextSpawning [simp]: "zview (startRandomTextSpawning s) = zview s"
  by (simp add: startRandomTextSpawning_def split: option.splits)

lemma zview_record [simp]:
  "zview (s\<lparr>media := m\<rparr>) = zview s"
  "zview (s\<lparr>labels := l\<rparr>) = zview s"
  "zview (s\<lparr>camera_position := v\<rparr>) = zview s"
  "zview (s\<lparr>controls_target := v\<rparr>) = zview s"
  "zview (s\<lparr>innerWidth := w, innerHeight := h\<rparr>) = zview s"
  by (simp_all add: zview_defs)

lemma zview_funpow:
  assumes "\<And>x. zview (f x) = zview x"
  shows "zview ((f ^^ n) s) = zview s"
  by (induction n) (simp_all add: assms)

lemma zview_fire: "cb \<noteq> ZoomToPlanet \<Longrightarrow> zview (fire cb s) = zview s"
proof (cases cb)
  case (TweenComplete tgt dest oc)
  then show ?thesis
    by (cases tgt) (simp_all add: Let_def)
qed (simp_all split: option.splits)

lemma start_inv_startGame:
  assumes "start_inv s" and "\<not> hasStarted s"
  shows "start_inv (startGame s)"
  using assms
  by (simp add: start_inv_def zoom_started_def zoom_pending_def startGame_def Let_def)

lemma start_inv_run_next:
  assumes "start_inv s"
  shows "start_inv (run_next s)"
proof (cases "next_task (pending s)")
  case None
  with assms show ?thesis by (simp add: run_next_def)
next
  case (Some tr)
  obtain t r where tr: "tr = (t, r)" by (cases tr)
  have nt: "next_task (pending s) = Some (t, r)" using Some tr by simp
  from next_task_split[OF nt]
  obtain xs ys where sp: "pending s = xs @ t # ys" "r = xs @ ys" by blast
  define again where
    "again = (case period t of None \<Rightarrow> [] | Some p \<Rightarrow> [Task (due t + p) (Some p) (callback t)])"
  define s1 where "s1 = s\<lparr>now := max (now s) (due t), pending := r @ again\<rparr>"
  have rn: "run_next s = fire (callback t) s1"
    using nt by (simp add: run_next_def s1_def again_def)
  show ?thesis
  proof (cases "callback t = ZoomToPlanet")
    case True
    then have pt: "period t = None"
      using assms sp by (auto simp: start_inv_def zoom_pending_def)
    let ?Z = "\<lambda>t. callback t = ZoomToPlanet"
    have zp: "zoom_pending s = filter ?Z xs @ t # filter ?Z ys"
      using sp(1) True by (simp add: zoom_pending_def)
    have zp1: "zoom_pending (zoomToPlanet s1) = filter ?Z xs @ filter ?Z ys"
      by (simp add: zoom_pending_def zoomToPlanet_def Let_def s1_def again_def pt sp(2))
    have zs1: "zoom_started (zoomToPlanet s1) = Suc (zoom_started s)"
      by (simp add: zoom_started_def zoomToPlanet_def Let_def s1_def)
    have hs: "hasStarted (zoomToPlanet s1) = hasStarted s"
      by (simp add: s1_def)
    have "start_inv (zoomToPlanet s1)"
      using assms unfolding start_inv_def zp zp1 zs1 hs by auto
    with rn True show ?thesis by simp
  next
    case False
    have "zview s1 = zview s"
      using sp False by (auto simp: zview_defs s1_def again_def split: option.splits)
    then have "zview (fire (callback t) s1) = zview s"
      using zview_fire[OF False, of s1] by simp
    with rn assms show ?thesis by (auto intro: start_inv_zview)
  qed
qed

lemma start_inv_step:
  assumes "start_inv s"
  shows "start_inv (step s e)"
proof (cases e)
  case Next
  with assms show ?thesis by (simp add: start_inv_run_next)
next
  case (KeyDown key code)
  define s1 where "s1 = (if toLowerCase key = ''v'' then playRandomVoice Manual s else s)"
  define s2 where "s2 = (if code = ''Enter'' \<and> \<not> hasStarted s1 then startGame s1 else s1)"
  have 1: "start_inv s1"
    using assms by (auto simp: s1_def intro: start_inv_zview[of "playRandomVoice Manual s" s])
  have 2: "start_inv s2"
    using 1 by (simp add: s2_def start_inv_startGame)
  have 3: "zview ((escapeKey key ^^ n) x) = zview x" for n x
    by (rule zview_funpow) simp
  have "zview (keydown key code s) = zview s2"
    by (simp add: keydown_def Let_def s1_def[symmetric] s2_def[symmetric] 3)
  with 2 KeyDown show ?thesis by (auto intro: start_inv_zview)
next
  case ClickStart
  with assms show ?thesis by (simp add: start_inv_startGame)
next
  case (ClickMenu option)
  have "zview (((\<lambda>s. showDialog d a (playClickSound s)) ^^ n) s) = zview s" for d a n
    by (rule zview_funpow) simp
  then have "zview (menuClick option s) = zview s"
    by (simp add: menuClick_def split: option.splits)
  with assms ClickMenu show ?thesis by (auto intro: start_inv_zview)
next
  case (ClickClose a)
  have "zview (((\<lambda>s. hideDialog d (playClickSound s)) ^^ n) s) = zview s" for d n
    by (rule zview_funpow) simp
  then have "zview (closeClick a s) = zview s"
    by (simp add: closeClick_def)
  with assms ClickClose show ?thesis by (auto intro: start_inv_zview)
next
  case (ClickOverlay d exact)
  have "zview (((hideDialog d') ^^ n) s) = zview s" for d' n
    by (rule zview_funpow) simp
  then have "zview (overlayClick d exact s) = zview s"
    by (simp add: overlayClick_def)
  with assms ClickOverlay show ?thesis by (auto intro: start_inv_zview)
next
  case (Resize w h)
  have "zview (step s (Resize w h)) = zview s"
    by simp
  with assms Resize show ?thesis by (auto intro: start_inv_zview)
qed (use assms in \<open>auto intro: start_inv_zview\<close>)

lemma start_inv_init:
  assumes "init c = Inr s"
  shows "start_inv s"
proof -
  have "hasStarted s = False \<and> tweens s = [] \<and>
        set (pending s) \<subseteq> {Task (cfg_now c + 25000) (Some 25000) VoiceInterval,
                            Task (cfg_now c + 100) None SocialVisible}"
    using assms
    by (auto simp: init_def createRenderer_def createCamera_def setupAudio_def constructor_def
      createControls_def createStarfield_def setupStartExperience_def showSocialMedia_def
      startRandomVoiceSystem_def Let_def split: option.splits sum.splits)
  then show ?thesis
    by (auto simp: start_inv_def zoom_started_def zoom_pending_def filter_empty_conv)
qed

lemma doc_startGame:
  "doc (startGame s) k =
     (if k = ''socialMedia'' then map_option (\<lambda>e. e\<lparr>display := ''none''\<rparr>) (doc s k)
      else if k = ''titleContainer'' \<or> k = ''startText''
           then map_option (classList_add ''hidden'') (doc s k)
      else doc s k)"
  by (simp add: startGame_def Let_def)

lemma hidden_added: "''hidden'' \<in> set (classes (classList_add ''hidden'' e))"
  by (simp add: classList_add_def)

text \<open>
  C1. The start action is idempotent. In every state that any sequence of events
  reaches after page load, the zoom-in tweens started and the zoom timers still pending
  are together one when \<open>hasStarted\<close> is set and none otherwise, so no sequence of
  triggers starts a second zoom-in tween. A trigger (the Enter key, or a click on the
  start element) in a state where \<open>hasStarted\<close> is set changes nothing; in a state
  where it is not set the trigger runs \<open>startGame\<close>, which sets the flag at once, hides
  the start text, the title and the social icons, and sets the one timer of the zoom.
\<close>

theorem start_is_one_shot:
  assumes "init c = Inr s0"
  shows "(let s = run s0 evs
          in zoom_started s + length (zoom_pending s) = (if hasStarted s then 1 else 0) \<and>
             (hasStarted s \<longrightarrow>
                step s ClickStart = s \<and> step s (KeyDown ''Enter'' ''Enter'') = s) \<and>
             (\<not> hasStarted s \<longrightarrow>
                step s (KeyDown ''Enter'' ''Enter'') = startGame s \<and>
                (doc s ''startText'' \<noteq> None \<longrightarrow> step s ClickStart = startGame s) \<and>
                hasStarted (startGame s) \<and>
                pending (startGame s) = pending s @ [Task (now s + 300) None ZoomToPlanet] \<and>
                tweens (startGame s) = tweens s \<and>
                (\<forall>e. doc (startGame s) ''startText'' = Some e \<longrightarrow> ''hidden'' \<in> set (classes e)) \<and>
                (\<forall>e. doc (startGame s) ''titleContainer'' = Some e \<longrightarrow> ''hidden'' \<in> set (classes e)) \<and>
                (\<forall>e. doc (startGame s) ''socialMedia'' = Some e \<longrightarrow> display e = ''none'')))"
proof -
  have "start_inv (run s0 evs)"
    by (rule run_invariant) (auto intro: start_inv_step start_inv_init[OF assms])
  then have i: "zoom_started (run s0 evs) + length (zoom_pending (run s0 evs)) =
                (if hasStarted (run s0 evs) then 1 else 0)"
    by (simp add: start_inv_def)
  have k: "keydown ''Enter'' ''Enter'' s = (if hasStarted s then s else startGame s)" for s
    by (simp add: keydown_def enter_is_no_voice_key Let_def id_funpow)
  have p: "hasStarted (startGame s) \<and>
           pending (startGame s) = pending s @ [Task (now s + 300) None ZoomToPlanet]" for s
    by (simp add: startGame_def Let_def)
  show ?thesis
    unfolding Let_def using i
    by (auto simp: k p doc_startGame hidden_added)
qed

theorem start_is_one_shot_witness:
  "init page = Inr page_state \<and>
   (let s = run page_state [ClickStart, ClickStart, Next, KeyDown ''Enter'' ''Enter'', Next]
    in hasStarted s \<and> zoom_started s = 1 \<and> zoom_pending s = [] \<and>
       step s ClickStart = s \<and> step s (KeyDown ''Enter'' ''Enter'') = s) \<and>
   \<not> hasStarted page_state \<and>
   step page_state (KeyDown ''Enter'' ''Enter'') = startGame page_state \<and>
   step page_state ClickStart = startGame page_state \<and>
   pending (startGame page_state) =
     pending page_state @ [Task (1700000000000 + 300) None ZoomToPlanet]"
proof -
  let ?evs = "[ClickStart, ClickStart, Next, KeyDown ''Enter'' ''Enter'', Next]"
  have h: "hasStarted (run page_state ?evs)"
    by (simp add: page_eval cong: let_weak_cong)
  have z: "zoom_pending (run page_state ?evs) = []"
    by (simp add: zoom_pending_def page_eval cong: let_weak_cong)
  have n: "\<not> hasStarted page_state" "doc page_state ''startText'' \<noteq> None"
    by (simp_all add: page_eval)
  have e: "run page_state [] = page_state"
    by (simp add: run_def)
  show ?thesis
    using start_is_one_shot[OF init_page, of ?evs] start_is_one_shot[OF init_page, of "[]"] h z n
    unfolding Let_def e
    by (simp add: init_page page_state_voices)
qed

text \<open>
  C3. A tick of the voice timer calls \<open>play\<close> only if more than 60000 ms have passed
  since \<open>lastVoiceTime\<close> and the draw is below \<open>0.15\<close>. \<open>lastVoiceTime\<close> is written by
  the then-callback of the promise of \<open>play\<close> only (the time at which a clip began to
  play), never by the catch-callback. So in every sequence of events after page load,
  every play the scheduler calls comes more than 60000 ms after every start of a clip
  logged before it. A play that is rejected, or whose promise is still pending at the
  next tick, leaves \<open>lastVoiceTime\<close> as it was: then the scheduler can call \<open>play\<close>
  again one polling interval (25000 ms) later, as the counterexample shows.
\<close>

theorem scheduler_waits_for_cooldown:
  assumes "init c = Inr s0" and "0 \<le> cfg_now c"
  shows "cooled [] (media (run s0 evs)) \<and>
         (\<forall>s. (60000 < now s - lastVoiceTime s \<and> rng s (rix s) < 0.15) \<or>
              media (fire VoiceInterval s) = media s) \<and>
         (\<forall>s p. lastVoiceTime (play_catch p s) = lastVoiceTime s) \<and>
         (\<forall>s p. lastVoiceTime (play_then p s) = lastVoiceTime s \<or>
                lastVoiceTime (play_then p s) = now s)"
proof -
  have "voice_inv s0"
    using init_voice[OF assms(1)] assms(2) by (simp add: voice_inv_def)
  then have "voice_inv (run s0 evs)"
    by (rule run_invariant[rotated]) (rule voice_inv_step)
  then have "cooled [] (media (run s0 evs))"
    by (simp add: voice_inv_def)
  moreover have "(60000 < now s - lastVoiceTime s \<and> rng s (rix s) < 0.15) \<or>
                 media (fire VoiceInterval s) = media s" for s
    by (simp add: maybePlayRandomVoice_def Math_random_def Let_def)
  moreover have "lastVoiceTime (play_then p s) = lastVoiceTime s \<or>
                 lastVoiceTime (play_then p s) = now s" for p s
    by (simp add: play_then_def split: option.splits)
  ultimately show ?thesis by simp
qed

theorem scheduler_waits_for_cooldown_witness:
  "init page = Inr page_state \<and> 0 \<le> cfg_now page \<and>
   media (run page_state [Next, Next, PlayResolved 0, Next, Next, Next, Next]) =
     [VoicePlay Scheduler 0 0 1700000025000, VoiceStarted 0 0 1700000025000,
      VoicePause 0 1700000030000, VoicePlay Scheduler 1 0 1700000100000] \<and>
   cooled [] (media (run page_state [Next, Next, PlayResolved 0, Next, Next, Next, Next]))"
proof -
  have "media (run page_state [Next, Next, PlayResolved 0, Next, Next, Next, Next]) =
     [VoicePlay Scheduler 0 0 1700000025000, VoiceStarted 0 0 1700000025000,
      VoicePause 0 1700000030000, VoicePlay Scheduler 1 0 1700000100000]"
    by (simp add: page_eval cong: let_weak_cong)
  moreover have "0 \<le> cfg_now page" by (simp add: page_def page_sized_def)
  ultimately show ?thesis
    using scheduler_waits_for_cooldown[OF init_page, of "[Next, Next, PlayResolved 0, Next, Next, Next, Next]"]
    by (simp add: init_page)
qed

theorem scheduler_refires_within_cooldown_counterexample:
  "media (run page_state [Next, Next, PlayRejected 0, Next]) =
     [VoicePlay Scheduler 0 0 1700000025000, VoiceRejected 0 0 1700000025000,
      VoicePlay Scheduler 1 0 1700000050000] \<and>
   \<not> fires_spaced (media (run page_state [Next, Next, PlayRejected 0, Next])) \<and>
   media (run page_state [Next, Next, Next, PlayResolved 0, PlayResolved 1]) =
     [VoicePlay Scheduler 0 0 1700000025000, VoicePlay Scheduler 1 0 1700000050000,
      VoiceStarted 0 0 1700000050000, VoiceStarted 1 0 1700000050000] \<and>
   \<not> fires_spaced (media (run page_state [Next, Next, Next, PlayResolved 0, PlayResolved 1]))"
proof -
  have a: "media (run page_state [Next, Next, PlayRejected 0, Next]) =
     [VoicePlay Scheduler 0 0 1700000025000, VoiceRejected 0 0 1700000025000,
      VoicePlay Scheduler 1 0 1700000050000]"
    by (simp add: page_eval cong: let_weak_cong)
  have b: "media (run page_state [Next, Next, Next, PlayResolved 0, PlayResolved 1]) =
     [VoicePlay Scheduler 0 0 1700000025000, VoicePlay Scheduler 1 0 1700000050000,
      VoiceStarted 0 0 1700000050000, VoiceStarted 1 0 1700000050000]"
    by (simp add: page_eval cong: let_weak_cong)
  have c: "\<not> fires_spaced [VoicePlay Scheduler 0 0 1700000025000,
      VoiceRejected 0 0 1700000025000, VoicePlay Scheduler 1 0 1700000050000]"
    by (simp add: fires_spaced_def)
  have d: "\<not> fires_spaced [VoicePlay Scheduler 0 0 1700000025000,
      VoicePlay Scheduler 1 0 1700000050000, VoiceStarted 0 0 1700000050000,
      VoiceStarted 1 0 1700000050000]"
    by (simp add: fires_spaced_def)
  show ?thesis
    using c d by (simp only: a b simp_thms)
qed

subsection \<open>The example page in the menu and with a dialog open\<close>

text \<open>
  The states of the example page that the examples start from, computed once: in the
  menu after the zoom, with the dialog of menu item 2 open, with the dialog of menu item 3
  open when its tween has completed, and after a click on menu item 3 while the dialog of
  menu item 2 is open.
\<close>

lemma menu_page_record:
  "menu_page w h =
     \<lparr>hasStarted = True, currentDialog = None, currentAnimation = None,
      escapeHandler = False, clickSound = True,
      distortedVoices = [''distortedVoice1'', ''distortedVoice2''], lastVoiceTime = 0,
      camera_fov = 45, camera_aspect = w / h, camera_position = (0, 0, 160),
      camera_projection = (45, w / h), renderer_size = (w, h),
      controls_target = (tan (pi / 8) * 160 * w / h, 0, 0), escapeOrphans = 0,
      menuHandlers = 1, now = 1700000003400, innerWidth = w, innerHeight = h,
      doc =
        [''sponsorsDialog'' \<mapsto> elem [''hidden''] [] 1,
         ''contactDialog'' \<mapsto> elem [''hidden''] [] 1,
         ''problemDialog'' \<mapsto> elem [''hidden''] [] 1,
         ''aboutDialog'' \<mapsto> elem [''hidden''] [] 1,
         ''randomTextContainer'' \<mapsto> elem [] [] 1,
         ''canvas-container'' \<mapsto> elem [] [] 1,
         ''.loading-progress'' \<mapsto> elem [] [] 1,
         ''loading'' \<mapsto> elem [] [] 1,
         ''clickSound'' \<mapsto> elem [] [] (3 / 5),
         ''distortedVoice1'' \<mapsto> elem [] [] (2 / 5),
         ''distortedVoice2'' \<mapsto> elem [] [] (2 / 5),
         ''startText'' \<mapsto> elem [''hidden''] [] 1,
         ''titleContainer'' \<mapsto> elem [''hidden''] [] 1,
         ''socialMedia'' \<mapsto> elem [''visible''] ''none'' 1,
         ''gameMenu'' \<mapsto> elem [''visible''] [] 1],
      menuItems = [''1'', ''2'', ''3'', ''4'', ''5''], labels = [], nextLabel = 0,
      pending =
        [Task 1700000025000 (Some 25000) VoiceInterval,
         Task 1700000004200 (Some 800) SpawnInterval],
      plays = [], nextPlay = 0, media = [ClickPlay 1700000000000],
      tweens =
        [(1700000000300, CameraPosition, 3000, 0, 0, 160),
         (1700000000300, ControlsTarget, 3000, tan (pi / 8) * 160 * w / h, 0, 0)],
      rng = \<lambda>n. 1 / 10, rix = 45000\<rparr>"
  by (simp add: menu_page_def sized_state_record elem_def rec_eval cong: let_weak_cong)

lemma about_page_record:
  "about_page w h =
     \<lparr>hasStarted = True, currentDialog = Some ''aboutDialog'',
      currentAnimation = Some ''right'', escapeHandler = True, clickSound = True,
      distortedVoices = [''distortedVoice1'', ''distortedVoice2''], lastVoiceTime = 0,
      camera_fov = 45, camera_aspect = w / h, camera_position = (0, 0, 160),
      camera_projection = (45, w / h), renderer_size = (w, h),
      controls_target = (tan (pi / 8) * 160 * w / h, 0, 0), escapeOrphans = 0,
      menuHandlers = 1, now = 1700000003950, innerWidth = w, innerHeight = h,
      doc =
        [''sponsorsDialog'' \<mapsto> elem [''hidden''] [] 1,
         ''contactDialog'' \<mapsto> elem [''hidden''] [] 1,
         ''problemDialog'' \<mapsto> elem [''hidden''] [] 1,
         ''randomTextContainer'' \<mapsto> elem [] [] 1,
         ''canvas-container'' \<mapsto> elem [] [] 1,
         ''.loading-progress'' \<mapsto> elem [] [] 1,
         ''loading'' \<mapsto> elem [] [] 1,
         ''clickSound'' \<mapsto> elem [] [] (3 / 5),
         ''distortedVoice1'' \<mapsto> elem [] [] (2 / 5),
         ''distortedVoice2'' \<mapsto> elem [] [] (2 / 5),
         ''startText'' \<mapsto> elem [''hidden''] [] 1,
         ''titleContainer'' \<mapsto> elem [''hidden''] [] 1,
         ''socialMedia'' \<mapsto> elem [''visible''] ''none'' 1,
         ''gameMenu'' \<mapsto> elem [''visible''] ''none'' 1,
         ''aboutDialog'' \<mapsto> elem [''visible''] [] 1],
      menuItems = [''1'', ''2'', ''3'', ''4'', ''5''], labels = [], nextLabel = 0,
      pending =
        [Task 1700000025000 (Some 25000) VoiceInterval,
         Task 1700000004200 (Some 800) SpawnInterval,
         Task 1700000005900 None (TweenComplete ControlsTarget (- (128 * (w * tan (pi / 8)) /
           h), 0, 0) False)],
      plays = [], nextPlay = 0, media = [ClickPlay 1700000000000, ClickPlay 1700000003400],
      tweens =
        [(1700000000300, CameraPosition, 3000, 0, 0, 160),
         (1700000000300, ControlsTarget, 3000, tan (pi / 8) * 160 * w / h, 0, 0),
         (1700000003400, ControlsTarget, 2500, - (128 * (w * tan (pi / 8)) / h), 0, 0)],
      rng = \<lambda>n. 1 / 10, rix = 45000\<rparr>"
  unfolding about_page_def menu_page_record
  by (simp add: elem_def rec_eval cong: let_weak_cong)

lemma top_dialog_record:
  "run (menu_page w h) [ClickMenu ''3'', Next, Next, Next, Next, Next, Next] =
     \<lparr>hasStarted = True, currentDialog = Some ''problemDialog'',
      currentAnimation = Some ''top'', escapeHandler = True, clickSound = True,
      distortedVoices = [''distortedVoice1'', ''distortedVoice2''], lastVoiceTime = 0,
      camera_fov = 45, camera_aspect = w / h, camera_position = (0, 0, 160),
      camera_projection = (45, w / h), renderer_size = (w, h),
      controls_target = (96 * (w * tan (pi / 8)) / h, 128 * tan (pi / 8), 0),
      escapeOrphans = 0, menuHandlers = 1, now = 1700000005900, innerWidth = w,
      innerHeight = h,
      doc =
        [''sponsorsDialog'' \<mapsto> elem [''hidden''] [] 1,
         ''contactDialog'' \<mapsto> elem [''hidden''] [] 1,
         ''aboutDialog'' \<mapsto> elem [''hidden''] [] 1,
         ''randomTextContainer'' \<mapsto> elem [] [] 1,
         ''canvas-container'' \<mapsto> elem [] [] 1,
         ''.loading-progress'' \<mapsto> elem [] [] 1,
         ''loading'' \<mapsto> elem [] [] 1,
         ''clickSound'' \<mapsto> elem [] [] (3 / 5),
         ''distortedVoice1'' \<mapsto> elem [] [] (2 / 5),
         ''distortedVoice2'' \<mapsto> elem [] [] (2 / 5),
         ''startText'' \<mapsto> elem [''hidden''] [] 1,
         ''titleContainer'' \<mapsto> elem [''hidden''] [] 1,
         ''socialMedia'' \<mapsto> elem [''visible''] ''none'' 1,
         ''gameMenu'' \<mapsto> elem [''visible''] ''none'' 1,
         ''problemDialog'' \<mapsto> elem [''visible''] [] 1],
      menuItems = [''1'', ''2'', ''3'', ''4'', ''5''], labels = [], nextLabel = 0,
      pending =
        [Task 1700000025000 (Some 25000) VoiceInterval,
         Task 1700000006600 (Some 800) SpawnInterval],
      plays = [], nextPlay = 0, media = [ClickPlay 1700000000000, ClickPlay 1700000003400],
      tweens =
        [(1700000000300, CameraPosition, 3000, 0, 0, 160),
         (1700000000300, ControlsTarget, 3000, tan (pi / 8) * 160 * w / h, 0, 0),
         (1700000003400, ControlsTarget, 2500, 96 * (w * tan (pi / 8)) / h, 128 * tan (pi /
           8), 0)],
      rng = \<lambda>n. 1 / 10, rix = 45003\<rparr>"
  unfolding menu_page_record
  by (simp add: elem_def rec_eval cong: let_weak_cong)

lemma second_dialog_record:
  "run (about_page w h) [ClickMenu ''3'', Next, Next, Next] =
     \<lparr>hasStarted = True, currentDialog = Some ''problemDialog'',
      currentAnimation = Some ''top'', escapeHandler = True, clickSound = True,
      distortedVoices = [''distortedVoice1'', ''distortedVoice2''], lastVoiceTime = 0,
      camera_fov = 45, camera_aspect = w / h, camera_position = (0, 0, 160),
      camera_projection = (45, w / h), renderer_size = (w, h),
      controls_target = (tan (pi / 8) * 160 * w / h, 0, 0), escapeOrphans = 1,
      menuHandlers = 1, now = 1700000004500, innerWidth = w, innerHeight = h,
      doc =
        [''sponsorsDialog'' \<mapsto> elem [''hidden''] [] 1,
         ''contactDialog'' \<mapsto> elem [''hidden''] [] 1,
         ''randomTextContainer'' \<mapsto> elem [] [] 1,
         ''canvas-container'' \<mapsto> elem [] [] 1,
         ''.loading-progress'' \<mapsto> elem [] [] 1,
         ''loading'' \<mapsto> elem [] [] 1,
         ''clickSound'' \<mapsto> elem [] [] (3 / 5),
         ''distortedVoice1'' \<mapsto> elem [] [] (2 / 5),
         ''distortedVoice2'' \<mapsto> elem [] [] (2 / 5),
         ''startText'' \<mapsto> elem [''hidden''] [] 1,
         ''titleContainer'' \<mapsto> elem [''hidden''] [] 1,
         ''socialMedia'' \<mapsto> elem [''visible''] ''none'' 1,
         ''aboutDialog'' \<mapsto> elem [''visible''] [] 1,
         ''gameMenu'' \<mapsto> elem [''visible''] ''none'' 1,
         ''problemDialog'' \<mapsto> elem [''visible''] [] 1],
      menuItems = [''1'', ''2'', ''3'', ''4'', ''5''], labels = [], nextLabel = 0,
      pending =
        [Task 1700000025000 (Some 25000) VoiceInterval,
         Task 1700000005900 None (TweenComplete ControlsTarget (- (128 * (w * tan (pi / 8)) /
           h), 0, 0) False),
         Task 1700000006450 None (TweenComplete ControlsTarget (96 * (w * tan (pi / 8)) / h,
           128 * tan (pi / 8), 0) False),
         Task 1700000005000 (Some 800) SpawnInterval],
      plays = [], nextPlay = 0,
      media =
        [ClickPlay 1700000000000,
         ClickPlay 1700000003400,
         ClickPlay 1700000003950],
      tweens =
        [(1700000000300, CameraPosition, 3000, 0, 0, 160),
         (1700000000300, ControlsTarget, 3000, tan (pi / 8) * 160 * w / h, 0, 0),
         (1700000003400, ControlsTarget, 2500, - (128 * (w * tan (pi / 8)) / h), 0, 0),
         (1700000003950, ControlsTarget, 2500, 96 * (w * tan (pi / 8)) / h, 128 * tan (pi /
           8), 0)],
      rng = \<lambda>n. 1 / 10, rix = 45001\<rparr>"
  unfolding about_page_record
  by (simp add: elem_def rec_eval cong: let_weak_cong)

lemma second_click_step:
  "currentDialog (step (about_page w h) (ClickMenu ''3'')) = Some ''problemDialog''"
  unfolding about_page_record
  by (simp add: elem_def rec_eval cong: let_weak_cong)

lemma second_click_now:
  "now (run (about_page w h) [ClickMenu ''3'', Next, Next, Next, Idle 1]) = 1700000004501"
proof -
  have e: "run (about_page w h) [ClickMenu ''3'', Next, Next, Next, Idle 1]
        = step (run (about_page w h) [ClickMenu ''3'', Next, Next, Next]) (Idle 1)"
    by (simp only: run_def foldl.simps)
  show ?thesis
    unfolding e second_dialog_record
    by (simp add: elem_def rec_eval cong: let_weak_cong)
qed

lemma menu_click_now:
  "now (run (menu_page w h) [ClickMenu ''3'', Next, Next, Idle 1]) = 1700000003951"
  unfolding menu_page_record
  by (simp add: elem_def rec_eval cong: let_weak_cong)


lemmas panel_obs = menu_state_def dialog_open_def dialog_shown_def dialog_hidden_def
  menu_shown_def menu_hidden_def panel_tasks_def timers_ahead_def ahead_def dialogs_def
  elem_def

lemma menu_page_menu_state: "menu_state (menu_page w h)"
  by (simp add: menu_page_record panel_obs)

lemma about_page_dialog_open: "dialog_open ''aboutDialog'' (about_page w h)"
  by (simp add: about_page_record panel_obs)

subsection \<open>Events that leave the panels alone\<close>

lemma panel_keys: "set (''gameMenu'' # dialogs) =
    {''gameMenu'', ''aboutDialog'', ''problemDialog'', ''contactDialog'', ''sponsorsDialog''}"
  by (auto simp: dialogs_def)

lemma pview_primitive [simp]:
  "pview (playClickSound s) = pview s"
  "pview (playRandomVoice og s) = pview s"
  "pview (maybePlayRandomVoice s) = pview s"
  "pview (play_catch p s) = pview s"
  "pview (idle d s) = pview s"
  "\<not> panel_cb cb \<Longrightarrow> pview (setTimeout cb ms s) = pview s"
  "\<not> panel_cb cb \<Longrightarrow> pview (setInterval cb ms s) = pview s"
  "i \<notin> set (''gameMenu'' # dialogs) \<Longrightarrow> pview (update_element i f s) = pview s"
  by (auto simp: pview_def panel_tasks_def)

lemma pview_record [simp]:
  "pview (s\<lparr>media := m\<rparr>) = pview s"
  "pview (s\<lparr>labels := l\<rparr>) = pview s"
  "pview (s\<lparr>camera_position := v\<rparr>) = pview s"
  "pview (s\<lparr>controls_target := v\<rparr>) = pview s"
  by (simp_all add: pview_def panel_tasks_def)

lemma pview_ambient [simp]:
  "pview (play_then p s) = pview s"
  "pview (spawnTick s) = pview s"
  by (simp_all add: play_then_def spawnTick_def spawnText_def Math_random_def Let_def
      pview_def panel_tasks_def split: option.splits)

lemma pview_fire: "\<not> panel_cb cb \<Longrightarrow> pview (fire cb s) = pview s"
proof (cases cb)
  case (TweenComplete tgt dest oc)
  then show "\<not> panel_cb cb \<Longrightarrow> ?thesis" by (cases tgt) (simp_all add: Let_def)
qed (simp_all add: dialogs_def)

lemma next_task_only:
  assumes "next_task ts = Some (t, r)" and "P t" and "filter P ts = [u]"
  shows "t = u \<and> filter P r = []"
proof -
  from next_task_split[OF assms(1)]
  obtain xs ys where sp: "ts = xs @ t # ys" "r = xs @ ys" by blast
  show ?thesis
    using sp assms(2,3) by (auto simp: append_eq_Cons_conv Cons_eq_append_conv)
qed

lemma run_next_unfold:
  assumes "next_task (pending s) = Some (t, r)"
  shows "run_next s =
    fire (callback t)
      (s\<lparr>now := max (now s) (due t),
         pending := r @ (case period t of None \<Rightarrow> []
                         | Some p \<Rightarrow> [Task (due t + p) (Some p) (callback t)])\<rparr>)"
  using assms by (simp add: run_next_def)

lemma pview_quiet_next:
  assumes "next_task (pending s) = Some (t, r)" and "\<not> panel_cb (callback t)"
  shows "pview (run_next s) = pview s"
proof -
  from next_task_split[OF assms(1)]
  obtain xs ys where sp: "pending s = xs @ t # ys" "r = xs @ ys" by blast
  have "pview (s\<lparr>now := max (now s) (due t),
         pending := r @ (case period t of None \<Rightarrow> []
                         | Some p \<Rightarrow> [Task (due t + p) (Some p) (callback t)])\<rparr>) = pview s"
    using sp assms(2) by (simp add: pview_def panel_tasks_def split: option.splits)
  then show ?thesis
    by (simp add: run_next_unfold[OF assms(1)] pview_fire[OF assms(2)])
qed

lemma escapeKey_other: "toLowerCase key \<noteq> ''e'' \<Longrightarrow> escapeKey key = id"
  by (auto simp: escapeKey_def)

lemma pview_quiet_event:
  assumes "quiet e" and "hasStarted s" and "e \<noteq> Next"
  shows "pview (step s e) = pview s"
proof (cases e)
  case (KeyDown key code)
  with assms show ?thesis
    by (simp add: keydown_def Let_def escapeKey_other)
next
  case ClickStart
  with assms show ?thesis by simp
next
  case (ClickOverlay d exact)
  with assms show ?thesis by (simp add: overlayClick_def)
next
  case (LoadProgress a b)
  then show ?thesis by (simp add: dialogs_def)
qed (use assms in simp_all)

subsection \<open>Closing a dialog\<close>

lemma pview_eqD:
  assumes "pview s' = pview s"
  shows "\<forall>k\<in>set (''gameMenu'' # dialogs). doc s' k = doc s k"
    and "currentDialog s' = currentDialog s" and "escapeHandler s' = escapeHandler s"
    and "escapeOrphans s' = escapeOrphans s" and "menuHandlers s' = menuHandlers s"
    and "menuItems s' = menuItems s" and "hasStarted s' = hasStarted s"
    and "camera_fov s' = camera_fov s" and "innerWidth s' = innerWidth s"
    and "innerHeight s' = innerHeight s" and "tweens s' = tweens s"
    and "panel_tasks s' = panel_tasks s"
  using assms unfolding pview_def by simp_all

lemma pview_views:
  assumes "pview s' = pview s"
  shows "d \<in> set dialogs \<Longrightarrow> dialog_shown d s' = dialog_shown d s"
    and "d \<in> set dialogs \<Longrightarrow> dialog_hidden d s' = dialog_hidden d s"
    and "d \<in> set dialogs \<Longrightarrow> doc s' d = doc s d"
    and "doc s' ''gameMenu'' = doc s ''gameMenu''"
    and "menu_shown s' = menu_shown s" and "menu_hidden s' = menu_hidden s"
    and "menu_pose s' = menu_pose s"
  using pview_eqD[OF assms]
  by (simp_all add: dialog_shown_def dialog_hidden_def menu_shown_def menu_hidden_def
      menu_pose_def)





lemma gameMenu_no_dialog: "d \<in> set dialogs \<Longrightarrow> d \<noteq> ''gameMenu''"
  by (auto simp: dialogs_def)

lemma classList_facts [simp]:
  "set (classes (classList_add c e)) = insert c (set (classes e))"
  "set (classes (classList_remove c e)) = set (classes e) - {c}"
  by (auto simp: classList_add_def classList_remove_def)

lemma panel_tasks_simps [simp]:
  "panel_tasks (update_element i f s) = panel_tasks s"
  "panel_tasks (playClickSound s) = panel_tasks s"
  "panel_tasks (removeEscapeListener s) = panel_tasks s"
  "panel_tasks (addEscapeListener s) = panel_tasks s"
  "panel_tasks (setTimeout cb ms s) =
     panel_tasks s @ (if panel_cb cb then [Task (now s + ms) None cb] else [])"
  "panel_tasks (gsap_to tgt ms dest oc s) =
     panel_tasks s @ (if oc then [Task (now s + ms) None (TweenComplete tgt dest oc)] else [])"
  "panel_tasks (moveEarthToLeft s) = panel_tasks s"
  "panel_tasks (moveEarthTo a s) = panel_tasks s"
  "panel_tasks (s\<lparr>currentDialog := cd, currentAnimation := ca\<rparr>) = panel_tasks s"
proof -
  show "panel_tasks (moveEarthTo a s) = panel_tasks s"
    by (rule moveEarthTo_pending[of a s]) (simp add: panel_tasks_def)
qed (simp_all add: panel_tasks_def moveEarthToLeft_def Let_def)










subsection \<open>Opening a dialog\<close>

lemma opening_pview:
  assumes "pview s' = pview s" and "timers_ahead s'" and "dialog_opening d T s"
  shows "dialog_opening d T s'"
  using assms(2,3) pview_eqD(2-12)[OF assms(1)] pview_views[OF assms(1)]
  unfolding dialog_opening_def by simp

lemma revealing_pview:
  assumes "pview s' = pview s" and "timers_ahead s'" and "dialog_revealing d T s"
  shows "dialog_revealing d T s'"
  using assms(2,3) pview_eqD(2-12)[OF assms(1)] pview_views[OF assms(1)]
  unfolding dialog_revealing_def by simp

lemma dialog_open_pview:
  assumes "pview s' = pview s" and "timers_ahead s'" and "dialog_open d s"
  shows "dialog_open d s'"
  using assms(2,3) pview_eqD(2-12)[OF assms(1)] pview_views[OF assms(1)]
  unfolding dialog_open_def by simp

lemma menuOptions_lookup:
  assumes "(option, d, a) \<in> set menuOptions"
  shows "map_of menuOptions option = Some (d, a)" and "d \<in> set dialogs"
  using assms by (auto simp: menuOptions_def dialogs_def)

lemma menu_click_event:
  assumes "menu_state s" and "(option, d, a) \<in> set menuOptions"
    and "option \<in> set (menuItems s)" and "doc s d \<noteq> None"
  shows "dialog_opening d (now s) (step s (ClickMenu option))"
proof -
  have d: "d \<in> set dialogs" by (rule menuOptions_lookup(2)[OF assms(2)])
  from assms(1) obtain g where g: "doc s ''gameMenu'' = Some g"
    by (auto simp: menu_state_def menu_shown_def split: option.splits)
  have "step s (ClickMenu option) = showDialog d a (playClickSound s)"
    using assms by (simp add: menuClick_def menuOptions_lookup(1)[OF assms(2)] menu_state_def)
  moreover have "dialog_opening d (now s) (showDialog d a (playClickSound s))"
    using assms(1,4) d g gameMenu_no_dialog
    unfolding dialog_opening_def menu_state_def
    by (auto simp: showDialog_def Let_def menu_hidden_def dialog_shown_def)
  ultimately show ?thesis by simp
qed

lemma phase_due:
  assumes "panel_tasks s = [Task D None cb]" and "timers_ahead s"
  shows "now s \<le> D"
proof -
  have "Task D None cb \<in> set (panel_tasks s)"
    using assms by simp
  then have "Task D None cb \<in> set (pending s)"
    by (simp add: panel_tasks_def)
  with assms(2) show ?thesis
    by (fastforce simp: timers_ahead_def ahead_def)
qed

lemma opening_next:
  assumes "dialog_opening d T s"
  shows "dialog_opening d T (run_next s) \<or> dialog_revealing d T (run_next s)"
proof (cases "next_task (pending s)")
  case None
  with assms show ?thesis by (simp add: run_next_def)
next
  case (Some tr)
  obtain t r where tr: "tr = (t, r)" by (cases tr)
  have nt: "next_task (pending s) = Some (t, r)" using Some tr by simp
  have ta: "timers_ahead (run_next s)"
    using assms by (intro timers_ahead_run_next) (simp add: dialog_opening_def)
  show ?thesis
  proof (cases "panel_cb (callback t)")
    case False
    have "pview (run_next s) = pview s" by (rule pview_quiet_next[OF nt False])
    then show ?thesis using opening_pview[OF _ ta assms] by blast
  next
    case True
    have pt: "panel_tasks s = [Task (T + 500) None (ShowDialogTimeout d)]"
      using assms by (simp add: dialog_opening_def)
    from next_task_only[OF nt, of "\<lambda>t. panel_cb (callback t)"] True pt
    have t: "t = Task (T + 500) None (ShowDialogTimeout d)"
      and r: "filter (\<lambda>t. panel_cb (callback t)) r = []"
      by (simp_all add: panel_tasks_def)
    define x where "x = s\<lparr>now := max (now s) (due t), pending := r\<rparr>"
    have rn: "run_next s = fire (ShowDialogTimeout d) x"
      using run_next_unfold[OF nt] by (simp add: t x_def)
    have nx: "now x = T + 500"
      using phase_due[OF pt] assms by (simp add: x_def t dialog_opening_def)
    have d: "d \<in> set dialogs" using assms by (simp add: dialog_opening_def)
    from assms obtain e where e: "doc s d = Some e"
      by (auto simp: dialog_opening_def)
    have px: "panel_tasks x = []" by (simp add: panel_tasks_def x_def r)
    have "dialog_revealing d T (fire (ShowDialogTimeout d) x)"
      unfolding dialog_revealing_def
      using assms e d px nx gameMenu_no_dialog ta[unfolded rn]
      by (auto simp: dialog_opening_def menu_hidden_def dialog_shown_def x_def)
    then show ?thesis by (simp add: rn)
  qed
qed

lemma revealing_next:
  assumes "dialog_revealing d T s"
  shows "dialog_revealing d T (run_next s) \<or> (dialog_open d (run_next s))"
proof (cases "next_task (pending s)")
  case None
  with assms show ?thesis by (simp add: run_next_def)
next
  case (Some tr)
  obtain t r where tr: "tr = (t, r)" by (cases tr)
  have nt: "next_task (pending s) = Some (t, r)" using Some tr by simp
  have ta: "timers_ahead (run_next s)"
    using assms by (intro timers_ahead_run_next) (simp add: dialog_revealing_def)
  show ?thesis
  proof (cases "panel_cb (callback t)")
    case False
    have "pview (run_next s) = pview s" by (rule pview_quiet_next[OF nt False])
    then show ?thesis using revealing_pview[OF _ ta assms] by blast
  next
    case True
    have pt: "panel_tasks s = [Task (T + 550) None (DialogVisible d)]"
      using assms by (simp add: dialog_revealing_def)
    from next_task_only[OF nt, of "\<lambda>t. panel_cb (callback t)"] True pt
    have t: "t = Task (T + 550) None (DialogVisible d)"
      and r: "filter (\<lambda>t. panel_cb (callback t)) r = []"
      by (simp_all add: panel_tasks_def)
    define x where "x = s\<lparr>now := max (now s) (due t), pending := r\<rparr>"
    have rn: "run_next s = fire (DialogVisible d) x"
      using run_next_unfold[OF nt] by (simp add: t x_def)
    have d: "d \<in> set dialogs" using assms by (simp add: dialog_revealing_def)
    from assms obtain e where e: "doc s d = Some e" "''hidden'' \<notin> set (classes e)"
      by (auto simp: dialog_revealing_def)
    have px: "panel_tasks x = []" by (simp add: panel_tasks_def x_def r)
    have "dialog_open d (fire (DialogVisible d) x)"
      unfolding dialog_open_def
      using assms e d px gameMenu_no_dialog ta[unfolded rn]
      by (auto simp: dialog_revealing_def menu_hidden_def dialog_shown_def x_def)
    then show ?thesis by (simp add: rn)
  qed
qed

lemma dialog_open_next:
  assumes "dialog_open d s"
  shows "dialog_open d (run_next s)"
proof (cases "next_task (pending s)")
  case None
  with assms show ?thesis by (simp add: run_next_def)
next
  case (Some tr)
  obtain t r where tr: "tr = (t, r)" by (cases tr)
  have nt: "next_task (pending s) = Some (t, r)" using Some tr by simp
  have ta: "timers_ahead (run_next s)"
    using assms by (intro timers_ahead_run_next) (simp add: dialog_open_def)
  have "t \<in> set (pending s)"
    using next_task_split[OF nt] by auto
  moreover have "panel_tasks s = []"
    using assms by (simp add: dialog_open_def)
  ultimately have "\<not> panel_cb (callback t)"
    by (auto simp: panel_tasks_def filter_empty_conv)
  then have "pview (run_next s) = pview s" by (rule pview_quiet_next[OF nt])
  then show ?thesis using dialog_open_pview[OF _ ta assms] by blast
qed

lemma opening_step:
  assumes "dialog_opening d T s \<or> dialog_revealing d T s \<or> dialog_open d s" and "quiet e"
  shows "dialog_opening d T (step s e) \<or> dialog_revealing d T (step s e) \<or> dialog_open d (step s e)"
proof (cases "e = Next")
  case True
  from assms(1) show ?thesis
  proof (elim disjE)
    assume "dialog_opening d T s"
    then show ?thesis using opening_next[of d T s] True by auto
  next
    assume "dialog_revealing d T s"
    then show ?thesis using revealing_next[of d T s] True by auto
  next
    assume "dialog_open d s"
    then show ?thesis using dialog_open_next[of d s] True by auto
  qed
next
  case False
  have h: "hasStarted s" "timers_ahead s"
    using assms(1) by (auto simp: dialog_opening_def dialog_revealing_def dialog_open_def)
  have p: "pview (step s e) = pview s"
    by (rule pview_quiet_event[OF assms(2) h(1) False])
  have ta: "timers_ahead (step s e)" by (rule timers_ahead_step[OF h(2)])
  from assms(1) show ?thesis
    using opening_pview[OF p ta] revealing_pview[OF p ta] dialog_open_pview[OF p ta] by blast
qed

lemma opening_run:
  assumes "dialog_opening d T s \<or> dialog_revealing d T s \<or> dialog_open d s" and "\<forall>e\<in>set evs. quiet e"
  shows "dialog_opening d T (run s evs) \<or> dialog_revealing d T (run s evs) \<or> dialog_open d (run s evs)"
  using assms unfolding run_def
proof (induction evs arbitrary: s)
  case Nil
  then show ?case by simp
next
  case (Cons e evs)
  have "dialog_opening d T (step s e) \<or> dialog_revealing d T (step s e) \<or> dialog_open d (step s e)"
    using Cons.prems opening_step by simp
  then show ?case using Cons.IH Cons.prems(2) by simp
qed

subsection \<open>A menu click while a dialog is open\<close>

lemma second_opening_pview:
  assumes "pview s' = pview s" and "timers_ahead s'" and "second_opening d0 d T s"
  shows "second_opening d0 d T s'"
  using assms(2,3) pview_eqD(2-12)[OF assms(1)] pview_views[OF assms(1)]
  unfolding second_opening_def by simp

lemma second_revealing_pview:
  assumes "pview s' = pview s" and "timers_ahead s'" and "second_revealing d0 d T s"
  shows "second_revealing d0 d T s'"
  using assms(2,3) pview_eqD(2-12)[OF assms(1)] pview_views[OF assms(1)]
  unfolding second_revealing_def by simp

lemma both_shown_pview:
  assumes "pview s' = pview s" and "timers_ahead s'" and "both_shown d0 d s"
  shows "both_shown d0 d s'"
  using assms(2,3) pview_eqD(2-12)[OF assms(1)] pview_views[OF assms(1)]
  unfolding both_shown_def by simp

lemma second_click_event:
  assumes "dialog_open d0 s" and "(option, d, a) \<in> set menuOptions"
    and "option \<in> set (menuItems s)" and "doc s d \<noteq> None"
  shows "second_opening d0 d (now s) (step s (ClickMenu option))"
proof -
  have d: "d \<in> set dialogs" by (rule menuOptions_lookup(2)[OF assms(2)])
  have d0: "d0 \<in> set dialogs" using assms(1) by (simp add: dialog_open_def)
  from assms(1) obtain g where g: "doc s ''gameMenu'' = Some g"
    by (auto simp: dialog_open_def menu_hidden_def split: option.splits)
  have st: "step s (ClickMenu option) = showDialog d a (playClickSound s)"
    using assms by (simp add: menuClick_def menuOptions_lookup(1)[OF assms(2)] dialog_open_def)
  have ta: "timers_ahead (step s (ClickMenu option))"
    using assms(1) by (intro timers_ahead_step) (simp add: dialog_open_def)
  have "second_opening d0 d (now s) (showDialog d a (playClickSound s))"
    using assms(1,4) d d0 g gameMenu_no_dialog ta[unfolded st]
    unfolding second_opening_def dialog_open_def
    by (auto simp: showDialog_def Let_def menu_hidden_def dialog_shown_def)
  then show ?thesis by (simp only: st)
qed

lemma second_opening_next:
  assumes "second_opening d0 d T s"
  shows "second_opening d0 d T (run_next s) \<or> second_revealing d0 d T (run_next s)"
proof (cases "next_task (pending s)")
  case None
  with assms show ?thesis by (simp add: run_next_def)
next
  case (Some tr)
  obtain t r where tr: "tr = (t, r)" by (cases tr)
  have nt: "next_task (pending s) = Some (t, r)" using Some tr by simp
  have ta: "timers_ahead (run_next s)"
    using assms by (intro timers_ahead_run_next) (simp add: second_opening_def)
  show ?thesis
  proof (cases "panel_cb (callback t)")
    case False
    have "pview (run_next s) = pview s" by (rule pview_quiet_next[OF nt False])
    then show ?thesis using second_opening_pview[OF _ ta assms] by blast
  next
    case True
    have pt: "panel_tasks s = [Task (T + 500) None (ShowDialogTimeout d)]"
      using assms by (simp add: second_opening_def)
    from next_task_only[OF nt, of "\<lambda>t. panel_cb (callback t)"] True pt
    have t: "t = Task (T + 500) None (ShowDialogTimeout d)"
      and r: "filter (\<lambda>t. panel_cb (callback t)) r = []"
      by (simp_all add: panel_tasks_def)
    define x where "x = s\<lparr>now := max (now s) (due t), pending := r\<rparr>"
    have rn: "run_next s = fire (ShowDialogTimeout d) x"
      using run_next_unfold[OF nt] by (simp add: t x_def)
    have nx: "now x = T + 500"
      using phase_due[OF pt] assms by (simp add: x_def t second_opening_def)
    have d: "d \<in> set dialogs" "d0 \<in> set dialogs"
      using assms by (simp_all add: second_opening_def)
    from assms obtain e where e: "doc s d = Some e"
      by (auto simp: second_opening_def)
    have px: "panel_tasks x = []" by (simp add: panel_tasks_def x_def r)
    have "second_revealing d0 d T (fire (ShowDialogTimeout d) x)"
      unfolding second_revealing_def
      using assms e d px nx gameMenu_no_dialog ta[unfolded rn]
      by (auto simp: second_opening_def menu_hidden_def dialog_shown_def x_def)
    then show ?thesis by (simp add: rn)
  qed
qed

lemma second_revealing_next:
  assumes "second_revealing d0 d T s"
  shows "second_revealing d0 d T (run_next s) \<or> both_shown d0 d (run_next s)"
proof (cases "next_task (pending s)")
  case None
  with assms show ?thesis by (simp add: run_next_def)
next
  case (Some tr)
  obtain t r where tr: "tr = (t, r)" by (cases tr)
  have nt: "next_task (pending s) = Some (t, r)" using Some tr by simp
  have ta: "timers_ahead (run_next s)"
    using assms by (intro timers_ahead_run_next) (simp add: second_revealing_def)
  show ?thesis
  proof (cases "panel_cb (callback t)")
    case False
    have "pview (run_next s) = pview s" by (rule pview_quiet_next[OF nt False])
    then show ?thesis using second_revealing_pview[OF _ ta assms] by blast
  next
    case True
    have pt: "panel_tasks s = [Task (T + 550) None (DialogVisible d)]"
      using assms by (simp add: second_revealing_def)
    from next_task_only[OF nt, of "\<lambda>t. panel_cb (callback t)"] True pt
    have t: "t = Task (T + 550) None (DialogVisible d)"
      and r: "filter (\<lambda>t. panel_cb (callback t)) r = []"
      by (simp_all add: panel_tasks_def)
    define x where "x = s\<lparr>now := max (now s) (due t), pending := r\<rparr>"
    have rn: "run_next s = fire (DialogVisible d) x"
      using run_next_unfold[OF nt] by (simp add: t x_def)
    have d: "d \<in> set dialogs" "d0 \<in> set dialogs"
      using assms by (simp_all add: second_revealing_def)
    from assms obtain e where e: "doc s d = Some e" "''hidden'' \<notin> set (classes e)"
      by (auto simp: second_revealing_def)
    have px: "panel_tasks x = []" by (simp add: panel_tasks_def x_def r)
    have "both_shown d0 d (fire (DialogVisible d) x)"
      unfolding both_shown_def
      using assms e d px gameMenu_no_dialog ta[unfolded rn]
      by (auto simp: second_revealing_def menu_hidden_def dialog_shown_def x_def)
    then show ?thesis by (simp add: rn)
  qed
qed

lemma both_shown_next:
  assumes "both_shown d0 d s"
  shows "both_shown d0 d (run_next s)"
proof (cases "next_task (pending s)")
  case None
  with assms show ?thesis by (simp add: run_next_def)
next
  case (Some tr)
  obtain t r where tr: "tr = (t, r)" by (cases tr)
  have nt: "next_task (pending s) = Some (t, r)" using Some tr by simp
  have ta: "timers_ahead (run_next s)"
    using assms by (intro timers_ahead_run_next) (simp add: both_shown_def)
  have "t \<in> set (pending s)"
    using next_task_split[OF nt] by auto
  moreover have "panel_tasks s = []"
    using assms by (simp add: both_shown_def)
  ultimately have "\<not> panel_cb (callback t)"
    by (auto simp: panel_tasks_def filter_empty_conv)
  then have "pview (run_next s) = pview s" by (rule pview_quiet_next[OF nt])
  then show ?thesis using both_shown_pview[OF _ ta assms] by blast
qed

lemma second_step:
  assumes "second_opening d0 d T s \<or> second_revealing d0 d T s \<or> both_shown d0 d s"
    and "quiet e"
  shows "second_opening d0 d T (step s e) \<or> second_revealing d0 d T (step s e) \<or>
         both_shown d0 d (step s e)"
proof (cases "e = Next")
  case True
  from assms(1) show ?thesis
  proof (elim disjE)
    assume "second_opening d0 d T s"
    then show ?thesis using second_opening_next[of d0 d T s] True by auto
  next
    assume "second_revealing d0 d T s"
    then show ?thesis using second_revealing_next[of d0 d T s] True by auto
  next
    assume "both_shown d0 d s"
    then show ?thesis using both_shown_next[of d0 d s] True by auto
  qed
next
  case False
  have h: "hasStarted s" "timers_ahead s"
    using assms(1) by (auto simp: second_opening_def second_revealing_def both_shown_def)
  have p: "pview (step s e) = pview s"
    by (rule pview_quiet_event[OF assms(2) h(1) False])
  have ta: "timers_ahead (step s e)" by (rule timers_ahead_step[OF h(2)])
  from assms(1) show ?thesis
    using second_opening_pview[OF p ta] second_revealing_pview[OF p ta]
      both_shown_pview[OF p ta] by blast
qed

lemma second_run:
  assumes "second_opening d0 d T s \<or> second_revealing d0 d T s \<or> both_shown d0 d s"
    and "\<forall>e\<in>set evs. quiet e"
  shows "second_opening d0 d T (run s evs) \<or> second_revealing d0 d T (run s evs) \<or>
         both_shown d0 d (run s evs)"
  using assms unfolding run_def
proof (induction evs arbitrary: s)
  case Nil
  then show ?case by simp
next
  case (Cons e evs)
  have "second_opening d0 d T (step s e) \<or> second_revealing d0 d T (step s e) \<or>
        both_shown d0 d (step s e)"
    using Cons.prems second_step by simp
  then show ?case using Cons.IH Cons.prems(2) by simp
qed

lemma second_click_opens:
  assumes "dialog_open d0 s" and "(option, d, a) \<in> set menuOptions"
    and "option \<in> set (menuItems s)" and "doc s d \<noteq> None"
    and "\<forall>e\<in>set evs. quiet e"
    and "now s + 550 < now (run (step s (ClickMenu option)) evs)"
  shows "step s (ClickMenu option) \<noteq> s \<and> both_shown d0 d (run (step s (ClickMenu option)) evs)"
proof -
  let ?s1 = "step s (ClickMenu option)"
  have o: "second_opening d0 d (now s) ?s1"
    by (rule second_click_event[OF assms(1-4)])
  then have "second_opening d0 d (now s) (run ?s1 evs) \<or>
             second_revealing d0 d (now s) (run ?s1 evs) \<or> both_shown d0 d (run ?s1 evs)"
    using second_run[OF _ assms(5)] by blast
  moreover have "\<not> second_opening d0 d (now s) (run ?s1 evs)"
    using phase_due[of "run ?s1 evs" "now s + 500" "ShowDialogTimeout d"] assms(6)
    by (auto simp: second_opening_def)
  moreover have "\<not> second_revealing d0 d (now s) (run ?s1 evs)"
    using phase_due[of "run ?s1 evs" "now s + 550" "DialogVisible d"] assms(6)
    by (auto simp: second_revealing_def)
  ultimately have b: "both_shown d0 d (run ?s1 evs)" by blast
  have "panel_tasks ?s1 \<noteq> panel_tasks s"
    using o assms(1) by (simp add: second_opening_def dialog_open_def)
  then have "?s1 \<noteq> s" by auto
  with b show ?thesis by simp
qed

text \<open>
  C2. A click on a menu item that maps to the dialog \<open>d\<close>, with \<open>d\<close> in the document,
  followed by any events that are no menu click, no close and no resize, until more than
  550 ms have passed since the click (the two timers of \<open>showDialog\<close>, of 500 ms and of
  50 ms, have fired by then).

  \<^item> In the Menu state at rest (\<open>menu_state\<close>: the game has started, the menu
    handlers are registered once, the menu panel is shown, no dialog is shown, no escape
    listener is registered and no timer of the presentation state machine is pending) the
    click hides the menu panel at once, and afterwards the dialog \<open>d\<close> is open: it is
    shown, no other dialog is shown and the menu panel is hidden.

  \<^item> While a dialog \<open>d0\<close> is open (\<open>dialog_open\<close>, at rest as well) the click is not
    ignored, for its handler tests no state: the state changes at the click, and
    afterwards \<open>d\<close> is shown as well as \<open>d0\<close>, with the menu panel hidden. In the
    example after the theorem \<^verbatim>\<open>aboutDialog\<close> and \<^verbatim>\<open>problemDialog\<close> are shown
    together.
\<close>

theorem menu_selection_opens_its_dialog:
  assumes "(option, d, a) \<in> set menuOptions"
    and "option \<in> set (menuItems s)" and "doc s d \<noteq> None"
    and "\<forall>e\<in>set evs. quiet e"
    and "now s + 550 < now (run (step s (ClickMenu option)) evs)"
  shows "(menu_state s \<longrightarrow>
           menu_hidden (step s (ClickMenu option)) \<and>
           dialog_open d (run (step s (ClickMenu option)) evs)) \<and>
         (dialog_open d0 s \<longrightarrow>
           step s (ClickMenu option) \<noteq> s \<and>
           menu_hidden (run (step s (ClickMenu option)) evs) \<and>
           dialog_shown d0 (run (step s (ClickMenu option)) evs) \<and>
           dialog_shown d (run (step s (ClickMenu option)) evs))"
proof (intro conjI impI)
  let ?s1 = "step s (ClickMenu option)"
  assume m: "menu_state s"
  have o: "dialog_opening d (now s) ?s1"
    by (rule menu_click_event[OF m assms(1-3)])
  then have "dialog_opening d (now s) (run ?s1 evs) \<or> dialog_revealing d (now s) (run ?s1 evs) \<or>
             dialog_open d (run ?s1 evs)"
    using opening_run[OF _ assms(4)] by blast
  moreover have "\<not> dialog_opening d (now s) (run ?s1 evs)"
    using phase_due[of "run ?s1 evs" "now s + 500" "ShowDialogTimeout d"] assms(5)
    by (auto simp: dialog_opening_def)
  moreover have "\<not> dialog_revealing d (now s) (run ?s1 evs)"
    using phase_due[of "run ?s1 evs" "now s + 550" "DialogVisible d"] assms(5)
    by (auto simp: dialog_revealing_def)
  ultimately show "dialog_open d (run ?s1 evs)" by blast
  from o show "menu_hidden ?s1" by (simp add: dialog_opening_def)
next
  let ?s1 = "step s (ClickMenu option)"
  assume "dialog_open d0 s"
  from second_click_opens[OF this assms]
  have c: "?s1 \<noteq> s" and b: "both_shown d0 d (run ?s1 evs)" by simp_all
  from c show "?s1 \<noteq> s" .
  from b show "menu_hidden (run ?s1 evs)" by (simp add: both_shown_def)
  from b show "dialog_shown d0 (run ?s1 evs)" by (simp add: both_shown_def)
  from b show "dialog_shown d (run ?s1 evs)" by (simp add: both_shown_def)
qed

theorem menu_selection_opens_its_dialog_witness:
  "(''3'', ''problemDialog'', ''top'') \<in> set menuOptions \<and>
   ''3'' \<in> set (menuItems (menu_page 1920 1080)) \<and>
   doc (menu_page 1920 1080) ''problemDialog'' \<noteq> None \<and>
   list_all quiet [Next, Next, Idle 1] \<and>
   menu_state (menu_page 1920 1080) \<and>
   menu_hidden (run (menu_page 1920 1080) [ClickMenu ''3'']) \<and>
   dialog_open ''problemDialog'' (run (menu_page 1920 1080) [ClickMenu ''3'', Next, Next, Idle 1]) \<and>
   ''3'' \<in> set (menuItems (about_page 1920 1080)) \<and>
   doc (about_page 1920 1080) ''problemDialog'' \<noteq> None \<and>
   list_all quiet [Next, Next, Next, Idle 1] \<and>
   dialog_open ''aboutDialog'' (about_page 1920 1080) \<and>
   menu_hidden (run (about_page 1920 1080) [ClickMenu ''3'', Next, Next, Next, Idle 1]) \<and>
   dialog_shown ''aboutDialog''
     (run (about_page 1920 1080) [ClickMenu ''3'', Next, Next, Next, Idle 1]) \<and>
   dialog_shown ''problemDialog''
     (run (about_page 1920 1080) [ClickMenu ''3'', Next, Next, Next, Idle 1])"
proof -
  have o: "(''3'', ''problemDialog'', ''top'') \<in> set menuOptions"
    by (simp add: menuOptions_def)
  have i: "''3'' \<in> set (menuItems (menu_page 1920 1080))"
    by (simp add: menu_page_record)
  have d: "doc (menu_page 1920 1080) ''problemDialog'' \<noteq> None"
    by (simp add: menu_page_record)
  have q: "\<forall>e\<in>set [Next, Next, Idle 1]. quiet e" by simp
  have n: "now (menu_page 1920 1080) + 550
             < now (run (step (menu_page 1920 1080) (ClickMenu ''3'')) [Next, Next, Idle 1])"
    using menu_click_now[of 1920 1080] by (simp add: menu_page_record run_def)
  have i': "''3'' \<in> set (menuItems (about_page 1920 1080))"
    by (simp add: about_page_record)
  have d': "doc (about_page 1920 1080) ''problemDialog'' \<noteq> None"
    by (simp add: about_page_record)
  have q': "\<forall>e\<in>set [Next, Next, Next, Idle 1]. quiet e" by simp
  have n': "now (about_page 1920 1080) + 550
              < now (run (step (about_page 1920 1080) (ClickMenu ''3''))
                       [Next, Next, Next, Idle 1])"
    using second_click_now[of 1920 1080] by (simp add: about_page_record run_def)
  show ?thesis
    using menu_selection_opens_its_dialog[OF o i d q n, of "''aboutDialog''"]
      menu_selection_opens_its_dialog[OF o i' d' q' n', of "''aboutDialog''"]
      menu_page_menu_state[of 1920 1080] about_page_dialog_open[of 1920 1080] o i d i' d'
    by (simp add: run_def)
qed

theorem second_dialog_opens_over_first_counterexample:
  "dialog_open ''aboutDialog'' (about_page 1920 1080) \<and>
   step (about_page 1920 1080) (ClickMenu ''3'') \<noteq> about_page 1920 1080 \<and>
   dialog_shown ''aboutDialog'' (run (about_page 1920 1080) [ClickMenu ''3'', Next, Next, Next]) \<and>
   dialog_shown ''problemDialog'' (run (about_page 1920 1080) [ClickMenu ''3'', Next, Next, Next]) \<and>
   \<not> dialog_open ''problemDialog'' (run (about_page 1920 1080) [ClickMenu ''3'', Next, Next, Next])"
proof -
  have "currentDialog (about_page 1920 1080) = Some ''aboutDialog''"
    by (simp add: about_page_record)
  then have "step (about_page 1920 1080) (ClickMenu ''3'') \<noteq> about_page 1920 1080"
    using second_click_step[of 1920 1080] by auto
  then show ?thesis
    using about_page_dialog_open[of 1920 1080]
    by (simp add: second_dialog_record panel_obs)
qed

subsection \<open>The scenario of menu item 3\<close>

text \<open>
  C5. On the example page with a window of any width and a positive height, after the
  start element is clicked, the menu has appeared, menu item 3 (direction \<^verbatim>\<open>top\<close>) is
  clicked and the timers up to the completion of the tween have fired: the tween to the
  dialog was started at the click with a duration of 2500 ms and completes 2500 ms after
  it; the target of the camera controls is then
  \<open>(tan (fov / 2) * distance * aspect * 0.6, tan (fov / 2) * distance * 0.8, 0)\<close>, with
  \<open>fov\<close> the field of view of the camera in radians, \<open>distance = 160\<close> and \<open>aspect\<close> the
  width of the window by its height, which is also the aspect of the camera; the panel
  \<^verbatim>\<open>problemDialog\<close> is visible, it is the only dialog that is, and the panel
  \<^verbatim>\<open>gameMenu\<close> is hidden. Numbers of the script are real numbers here.
\<close>

theorem top_dialog_scenario:
  assumes "0 < h"
  shows "let s = run (sized_state w h)
                   [ClickStart, Next, Next, Next, Next, Next,
                    ClickMenu ''3'', Next, Next, Next, Next, Next, Next];
             fov = camera_fov s * pi / 180; distance = 160; aspect = w / h
         in camera_fov s = 45 \<and>
            controls_target s
              = (tan (fov / 2) * distance * aspect * 0.6, tan (fov / 2) * distance * 0.8, 0) \<and>
            camera_aspect s = aspect \<and>
            last (tweens s) = (now s - 2500, ControlsTarget, 2500, controls_target s) \<and>
            filter (\<lambda>t. \<exists>tgt dest oc. callback t = TweenComplete tgt dest oc) (pending s) = [] \<and>
            dialog_shown ''problemDialog'' s \<and>
            dialog_open ''problemDialog'' s \<and> menu_hidden s"
proof -
  have "run (sized_state w h)
          [ClickStart, Next, Next, Next, Next, Next,
           ClickMenu ''3'', Next, Next, Next, Next, Next, Next]
        = run (menu_page w h) [ClickMenu ''3'', Next, Next, Next, Next, Next, Next]"
    by (simp only: menu_page_def run_def foldl.simps)
  then show ?thesis
    by (simp add: top_dialog_record panel_obs)
qed

theorem top_dialog_scenario_witness:
  "(0::real) < 1080 \<and>
   controls_target
     (run (sized_state 1920 1080)
        [ClickStart, Next, Next, Next, Next, Next,
         ClickMenu ''3'', Next, Next, Next, Next, Next, Next])
     = (tan (pi / 8) * 160 * (1920 / 1080) * 0.6, tan (pi / 8) * 160 * 0.8, 0) \<and>
   dialog_shown ''problemDialog''
     (run (sized_state 1920 1080)
        [ClickStart, Next, Next, Next, Next, Next,
         ClickMenu ''3'', Next, Next, Next, Next, Next, Next]) \<and>
   menu_hidden
     (run (sized_state 1920 1080)
        [ClickStart, Next, Next, Next, Next, Next,
         ClickMenu ''3'', Next, Next, Next, Next, Next, Next])"
  using top_dialog_scenario[of 1080 1920]
  by (simp add: Let_def)

end
